theory Spec2Isabelle
  imports
    Main
    "HOL-Library.Char_ord"
    "HOL-Library.List_Lexorder"
    "HOL-Library.AList"
    "HOL-Library.Multiset"
    "HOL-Library.Word"
begin


section \<open>Path names\<close>

text \<open>
  The server builds every file name with \<^verbatim>\<open>path.join\<close> (POSIX flavour) from
  \<^verbatim>\<open>__dirname\<close>, which is an absolute, normalised path. A path name is kept as the
  list of its components below the root, together with the trailing separator that
  \<^verbatim>\<open>path.normalize\<close> preserves. JavaScript strings are modelled as \<open>string\<close>, that
  is for code units below 256; their order (\<^verbatim>\<open>Array.prototype.sort\<close> without a
  comparator) is the lexicographic order of the code units, which is the order of
  \<open>char list\<close> here.
\<close>

record pathname =
  segments :: "string list"
  dirsep :: bool

fun splitOn :: "char \<Rightarrow> string \<Rightarrow> string list" where
  "splitOn c [] = [[]]"
| "splitOn c (x # xs) =
     (if x = c then [] # splitOn c xs
      else (x # hd (splitOn c xs)) # tl (splitOn c xs))"

text \<open>
  \<^verbatim>\<open>normalizeString\<close> of an absolute path: empty components and \<^verbatim>\<open>.\<close> are dropped,
  \<^verbatim>\<open>..\<close> removes the component before it and is dropped at the root.
\<close>

fun normalizeSegs :: "string list \<Rightarrow> string list \<Rightarrow> string list" where
  "normalizeSegs acc [] = acc"
| "normalizeSegs acc (s # ss) =
     (if s = [] \<or> s = ''.'' then normalizeSegs acc ss
      else if s = ''..'' then normalizeSegs (butlast acc) ss
      else normalizeSegs (acc @ [s]) ss)"

text \<open>
  \<^verbatim>\<open>path.join(base, ...parts)\<close> for an absolute \<open>base\<close>: the non-empty arguments are
  joined with \<^verbatim>\<open>/\<close> and the result is normalised; it ends in a separator when the
  joined string does.
\<close>

definition path_join :: "pathname \<Rightarrow> string list \<Rightarrow> pathname" where
  "path_join base parts =
     (let ps = filter (\<lambda>p. p \<noteq> []) parts in
      \<lparr> segments = normalizeSegs (segments base) (concat (map (splitOn CHR ''/'') ps)),
        dirsep = (if ps = [] then dirsep base else last (last ps) = CHR ''/'') \<rparr>)"

definition dirname :: "string list \<Rightarrow> pathname" where
  "dirname app = \<lparr> segments = app, dirsep = False \<rparr>"

fun pathString :: "pathname \<Rightarrow> string" where
  "pathString p =
     (if segments p = [] then ''/''
      else concat (map (\<lambda>s. CHR ''/'' # s) (segments p)) @ (if dirsep p then ''/'' else []))"

text \<open>The names a directory entry can have.\<close>

definition properName :: "string \<Rightarrow> bool" where
  "properName f \<longleftrightarrow> f \<noteq> [] \<and> f \<noteq> ''.'' \<and> f \<noteq> ''..'' \<and> CHR ''/'' \<notin> set f"

definition endsWith :: "string \<Rightarrow> string \<Rightarrow> bool" where
  "endsWith s t \<longleftrightarrow> length t \<le> length s \<and> drop (length s - length t) s = t"


section \<open>The file system\<close>

text \<open>
  Files are byte sequences, directories carry no data of their own. The file system
  is an association list from absolute component lists to nodes; the root always
  exists. The entries of a directory are listed in the order of the association list,
  which stands for the order the operating system returns. An operation fails for
  the reasons the structure gives (a missing entry, a file where a directory is
  needed and the reverse, a directory that is not empty); permissions, links and
  device errors are left out. A path below a missing entry and a path below a file
  both count as missing.
\<close>

type_synonym bytes = "8 word list"

datatype node = File bytes | Dir

type_synonym filesystem = "(string list \<times> node) list"

datatype errno = ENOENT | ENOTDIR | EISDIR | ENOTEMPTY | EEXIST | EBUSY

definition lookup :: "filesystem \<Rightarrow> string list \<Rightarrow> node option" where
  "lookup fs p = (if p = [] then Some Dir else map_of fs p)"

definition stat :: "filesystem \<Rightarrow> pathname \<Rightarrow> errno + node" where
  "stat fs p =
     (case lookup fs (segments p) of
        None \<Rightarrow> Inl ENOENT
      | Some (File d) \<Rightarrow> if dirsep p then Inl ENOTDIR else Inr (File d)
      | Some Dir \<Rightarrow> Inr Dir)"

definition existsSync :: "filesystem \<Rightarrow> pathname \<Rightarrow> bool" where
  "existsSync fs p = (case stat fs p of Inl _ \<Rightarrow> False | Inr _ \<Rightarrow> True)"

text \<open>Every entry of a well-formed file system lies in a directory that exists.\<close>

definition wellFormed :: "filesystem \<Rightarrow> bool" where
  "wellFormed fs \<longleftrightarrow> list_all (\<lambda>(q, n). q \<noteq> [] \<and> lookup fs (butlast q) = Some Dir) fs"

definition children :: "filesystem \<Rightarrow> string list \<Rightarrow> string list" where
  "children fs d =
     remdups (map last (filter (\<lambda>q. q \<noteq> [] \<and> butlast q = d) (map fst fs)))"

definition readdirSync :: "filesystem \<Rightarrow> pathname \<Rightarrow> errno + string list" where
  "readdirSync fs p =
     (case lookup fs (segments p) of
        None \<Rightarrow> Inl ENOENT
      | Some (File _) \<Rightarrow> Inl ENOTDIR
      | Some Dir \<Rightarrow> Inr (children fs (segments p)))"

definition readFileSync :: "filesystem \<Rightarrow> pathname \<Rightarrow> errno + bytes" where
  "readFileSync fs p =
     (case stat fs p of
        Inl e \<Rightarrow> Inl e
      | Inr Dir \<Rightarrow> Inl EISDIR
      | Inr (File d) \<Rightarrow> Inr d)"

definition unlinkSync :: "filesystem \<Rightarrow> pathname \<Rightarrow> errno + filesystem" where
  "unlinkSync fs p =
     (case stat fs p of
        Inl e \<Rightarrow> Inl e
      | Inr Dir \<Rightarrow> Inl EISDIR
      | Inr (File _) \<Rightarrow> Inr (AList.delete (segments p) fs))"

definition rmdirSync :: "filesystem \<Rightarrow> pathname \<Rightarrow> errno + filesystem" where
  "rmdirSync fs p =
     (if segments p = [] then Inl EBUSY
      else case lookup fs (segments p) of
        None \<Rightarrow> Inl ENOENT
      | Some (File _) \<Rightarrow> Inl ENOTDIR
      | Some Dir \<Rightarrow>
          if children fs (segments p) \<noteq> [] then Inl ENOTEMPTY
          else Inr (AList.delete (segments p) fs))"

text \<open>\<^verbatim>\<open>fs.mkdirSync(p, { recursive: true })\<close>: every missing ancestor is created.\<close>

fun mkdirs :: "filesystem \<Rightarrow> string list \<Rightarrow> string list \<Rightarrow> errno + filesystem" where
  "mkdirs fs pre [] = Inr fs"
| "mkdirs fs pre (s # ss) =
     (case lookup fs (pre @ [s]) of
        None \<Rightarrow> mkdirs (AList.update (pre @ [s]) Dir fs) (pre @ [s]) ss
      | Some Dir \<Rightarrow> mkdirs fs (pre @ [s]) ss
      | Some (File _) \<Rightarrow> Inl (if ss = [] then EEXIST else ENOTDIR))"

definition mkdirSync_recursive :: "filesystem \<Rightarrow> pathname \<Rightarrow> errno + filesystem" where
  "mkdirSync_recursive fs p = mkdirs fs [] (segments p)"

text \<open>
  A write stream opened with the default flag \<^verbatim>\<open>w\<close>, written and closed: the file is
  created or replaced. The open fails on a directory and under a missing parent.
\<close>

definition writeFile :: "filesystem \<Rightarrow> pathname \<Rightarrow> bytes \<Rightarrow> errno + filesystem" where
  "writeFile fs p content =
     (if dirsep p \<or> segments p = [] then Inl EISDIR
      else case lookup fs (butlast (segments p)) of
        None \<Rightarrow> Inl ENOENT
      | Some (File _) \<Rightarrow> Inl ENOTDIR
      | Some Dir \<Rightarrow>
          (case lookup fs (segments p) of
             Some Dir \<Rightarrow> Inl EISDIR
           | _ \<Rightarrow> Inr (AList.update (segments p) (File content) fs)))"


section \<open>Documents and the doctor collection\<close>

text \<open>
  A JSON value of a request body or of a stored document. A number is kept by its
  \<^verbatim>\<open>String()\<close> rendering; a nested object lists its keys, which are distinct, with
  their values. A request body and a stored document are partial maps from keys to
  values.
\<close>

datatype jsvalue =
    JString string
  | JNumber string
  | JBool bool
  | JNull
  | JArray "jsvalue list"
  | JObject "(string \<times> jsvalue) list"

type_synonym jsobject = "string \<rightharpoonup> jsvalue"

type_synonym store = "jsobject list"

text \<open>The paths of \<^verbatim>\<open>DoctorSchema\<close>; every one has type \<^verbatim>\<open>String\<close>.\<close>

definition schemaPaths :: "string list" where
  "schemaPaths = [''name'', ''designation'', ''degree'', ''mobile'', ''email'', ''videoId'']"

text \<open>The truth value JavaScript gives a property; a missing one is \<^verbatim>\<open>undefined\<close>.\<close>

definition truthy :: "jsvalue option \<Rightarrow> bool" where
  "truthy v =
     (case v of
        None \<Rightarrow> False
      | Some (JString s) \<Rightarrow> s \<noteq> []
      | Some (JNumber s) \<Rightarrow> s \<noteq> ''0'' \<and> s \<noteq> ''NaN''
      | Some (JBool b) \<Rightarrow> b
      | Some JNull \<Rightarrow> False
      | Some (JArray _) \<Rightarrow> True
      | Some (JObject _) \<Rightarrow> True)"

text \<open>
  \<^verbatim>\<open>value.toString()\<close>: an array joins the renderings of its elements with commas,
  where \<^verbatim>\<open>null\<close> gives the empty string; a plain object has the rendering of
  \<^verbatim>\<open>Object.prototype\<close>.
\<close>

fun joinComma :: "string list \<Rightarrow> string" where
  "joinComma [] = []"
| "joinComma [s] = s"
| "joinComma (s # t # ss) = s @ '','' @ joinComma (t # ss)"

fun jsToString :: "jsvalue \<Rightarrow> string" where
  "jsToString (JString s) = s"
| "jsToString (JNumber s) = s"
| "jsToString (JBool b) = (if b then ''true'' else ''false'')"
| "jsToString JNull = ''null''"
| "jsToString (JArray xs) = joinComma (map (\<lambda>x. if x = JNull then [] else jsToString x) xs)"
| "jsToString (JObject kvs) = ''[object Object]''"

text \<open>
  Mongoose's cast to \<^verbatim>\<open>String\<close>: null stays; an object with a non-empty string
  under \<^verbatim>\<open>_id\<close> is cast to that string; numbers and booleans are rendered; arrays
  and all other objects are a cast error.
\<close>

fun castString :: "jsvalue \<Rightarrow> jsvalue option" where
  "castString (JString s) = Some (JString s)"
| "castString (JNumber s) = Some (JString s)"
| "castString (JBool b) = Some (JString (if b then ''true'' else ''false''))"
| "castString JNull = Some JNull"
| "castString (JArray xs) = None"
| "castString (JObject kvs) =
     (case map_of kvs ''_id'' of
        Some (JString s) \<Rightarrow> if s = [] then None else Some (JString s)
      | _ \<Rightarrow> None)"

text \<open>
  Mongoose's cast to \<^verbatim>\<open>ObjectId\<close>: null stays; an object with a truthy \<^verbatim>\<open>_id\<close>
  is cast by the rendering of that, every other value by its own rendering. Whether a
  rendering is an ObjectId, and which, is decided by the library function
  \<open>castObjectId\<close>.
\<close>

definition castId :: "(string \<Rightarrow> string option) \<Rightarrow> jsvalue \<Rightarrow> jsvalue option" where
  "castId castObjectId v =
     (case v of
        JNull \<Rightarrow> Some JNull
      | JObject kvs \<Rightarrow>
          (case map_of kvs ''_id'' of
             None \<Rightarrow> map_option JString (castObjectId (jsToString v))
           | Some i \<Rightarrow>
               if truthy (Some i) then map_option JString (castObjectId (jsToString i))
               else map_option JString (castObjectId (jsToString v)))
      | _ \<Rightarrow> map_option JString (castObjectId (jsToString v)))"

text \<open>
  A Mongoose document in memory: the data of the schema's paths, which \<^verbatim>\<open>save\<close>
  writes, the list of paths modified since it was loaded, and the plain JavaScript
  properties assigned under names the schema does not have. The schema is strict (the
  default): the constructor drops every key outside the schema, and an assignment to
  such a name touches neither the data nor the modified paths. A document loaded from
  the collection has its schema paths cast; a stored value that cannot be cast is
  not set. The version key of stored documents is not represented.
\<close>

record mdoc =
  tracked :: jsobject
  modified :: "string list"
  props :: jsobject

definition schemaData :: "jsobject \<Rightarrow> jsobject" where
  "schemaData obj =
     (\<lambda>k. if k \<in> set schemaPaths then (case obj k of None \<Rightarrow> None | Some v \<Rightarrow> castString v)
          else None)"

definition hydrate :: "jsobject \<Rightarrow> mdoc" where
  "hydrate d =
     \<lparr> tracked = (\<lambda>k. if k \<in> set schemaPaths then schemaData d k else d k),
       modified = [], props = Map.empty \<rparr>"

definition getProp :: "mdoc \<Rightarrow> string \<Rightarrow> jsvalue option" where
  "getProp m p = (if p \<in> set schemaPaths \<or> p = ''_id'' then tracked m p else props m p)"

definition setProp :: "mdoc \<Rightarrow> string \<Rightarrow> jsvalue \<Rightarrow> mdoc" where
  "setProp m p v =
     (if p \<in> set schemaPaths then
        (case castString v of
           None \<Rightarrow> m
         | Some v' \<Rightarrow> m\<lparr> tracked := (tracked m)(p \<mapsto> v'), modified := p # modified m \<rparr>)
      else m\<lparr> props := (props m)(p \<mapsto> v) \<rparr>)"

definition castPaths :: "jsobject \<Rightarrow> bool" where
  "castPaths obj \<longleftrightarrow>
     list_all (\<lambda>p. case obj p of None \<Rightarrow> True | Some v \<Rightarrow> castString v \<noteq> None) schemaPaths"

text \<open>
  The casts of a document or an update against the schema: \<open>None\<close> when one fails;
  otherwise the identifier the object gives, if it gives one, cast to an ObjectId,
  and the data of the schema's paths.
\<close>

definition castDoc ::
  "(string \<Rightarrow> string option) \<Rightarrow> jsobject \<Rightarrow> (jsvalue option \<times> jsobject) option" where
  "castDoc castObjectId obj =
     (if \<not> castPaths obj then None
      else case obj ''_id'' of
        None \<Rightarrow> Some (None, schemaData obj)
      | Some v \<Rightarrow>
          (case castId castObjectId v of
             None \<Rightarrow> None
           | Some i \<Rightarrow> Some (Some i, schemaData obj)))"


definition findById :: "store \<Rightarrow> string \<Rightarrow> jsobject option" where
  "findById st oid = find (\<lambda>d. d ''_id'' = Some (JString oid)) st"

definition findOneByVideoId :: "store \<Rightarrow> string \<Rightarrow> jsobject option" where
  "findOneByVideoId st v = find (\<lambda>d. d ''videoId'' = Some (JString v)) st"

text \<open>Removal of the first document with the identifier, as \<^verbatim>\<open>findOneAndDelete\<close> does.\<close>

fun removeById :: "store \<Rightarrow> string \<Rightarrow> store" where
  "removeById [] oid = []"
| "removeById (d # st) oid =
     (if d ''_id'' = Some (JString oid) then st else d # removeById st oid)"

fun replaceById :: "store \<Rightarrow> string \<Rightarrow> jsobject \<Rightarrow> store" where
  "replaceById [] oid d' = []"
| "replaceById (d # st) oid d' =
     (if d ''_id'' = Some (JString oid) then d' # st else d # replaceById st oid d')"


text \<open>
  \<^verbatim>\<open>doc.save()\<close> of a loaded document: the modified paths are set in the stored
  document; nothing is sent when no path is modified.
\<close>

definition saveDoc :: "store \<Rightarrow> mdoc \<Rightarrow> store" where
  "saveDoc st m =
     (if modified m = [] then st
      else case tracked m ''_id'' of
        Some (JString oid) \<Rightarrow>
          (case findById st oid of
             None \<Rightarrow> st
           | Some d \<Rightarrow>
               replaceById st oid (\<lambda>k. if k \<in> set (modified m) then tracked m k else d k))
      | _ \<Rightarrow> st)"


section \<open>HTTP responses\<close>

text \<open>
  The messages of Joi, by the key they complain about: \<open>Required k\<close> stands for
  the text that \<open>k\<close> is required, and so on.
\<close>

datatype joiError = Required string | NotAString string | EmptyString string | InvalidEmail string

datatype failure =
    FsError errno
  | TypeError
  | ProviderError string
  | CastError
  | DuplicateKey
  | ImmutableField

datatype rbody =
    Message string
  | ServerError failure
  | MessagePath string string
  | ValidationMessage joiError
  | DocJson "jsobject option"
  | DefaultError

record response =
  status :: nat
  body :: rbody

definition serverError :: "failure \<Rightarrow> response" where
  "serverError e = \<lparr> status = 500, body = ServerError e \<rparr>"


section \<open>Doctor records\<close>

text \<open>
  \<^verbatim>\<open>doctorValidationSchema.validate(req.body)\<close>: the first error, if any. The rule
  for a well-formed address belongs to Joi and is the parameter \<open>isEmail\<close>. Unknown
  keys are allowed.
\<close>

definition validateString :: "jsobject \<Rightarrow> string \<Rightarrow> joiError + string" where
  "validateString obj k =
     (case obj k of
        None \<Rightarrow> Inl (Required k)
      | Some (JString s) \<Rightarrow> if s = [] then Inl (EmptyString k) else Inr s
      | Some _ \<Rightarrow> Inl (NotAString k))"

definition validate :: "(string \<Rightarrow> bool) \<Rightarrow> jsobject \<Rightarrow> joiError option" where
  "validate isEmail obj =
     (case validateString obj ''name'' of
        Inl e \<Rightarrow> Some e
      | Inr _ \<Rightarrow>
          (case validateString obj ''email'' of
             Inl e \<Rightarrow> Some e
           | Inr s \<Rightarrow> if isEmail s then None else Some (InvalidEmail ''email'')))"

text \<open>
  A handler without \<^verbatim>\<open>try\<close> answers with a response or lets the rejection of a
  library call escape (\<open>Inl\<close>); what the client then receives is Express's business.
  The random token of \<^verbatim>\<open>uuidv4()\<close> and the identifier Mongoose generates are inputs
  of the model. The notification mail of the create handler changes neither the
  collection nor the response and is left out.
\<close>


text \<open>
  \<^verbatim>\<open>PUT /doctors/:id\<close>, the same in both variants. In
  \<^verbatim>\<open>Doctor.findByIdAndUpdate(id, req.body, { new: true })\<close> the identifier and the
  update are cast first; the update sets the schema's paths that the body gives; the
  identifier of a stored document cannot be changed; without a match the result is
  \<^verbatim>\<open>null\<close> and nothing is written; with one, the updated document is loaded and
  returned.
\<close>

definition updateDoctor ::
  "(string \<Rightarrow> bool) \<Rightarrow> (string \<Rightarrow> string option) \<Rightarrow> store \<Rightarrow> string \<Rightarrow> jsobject
     \<Rightarrow> (failure + response) \<times> store" where
  "updateDoctor isEmail castObjectId st ident reqBody =
     (case validate isEmail reqBody of
        Some e \<Rightarrow> (Inr \<lparr> status = 400, body = ValidationMessage e \<rparr>, st)
      | None \<Rightarrow>
          (case castObjectId ident of
             None \<Rightarrow> (Inl CastError, st)
           | Some oid \<Rightarrow>
               (case castDoc castObjectId reqBody of
                  None \<Rightarrow> (Inl CastError, st)
                | Some (i, upd) \<Rightarrow>
                    (case findById st oid of
                       None \<Rightarrow> (Inr \<lparr> status = 200, body = DocJson None \<rparr>, st)
                     | Some d \<Rightarrow>
                         if i \<noteq> None \<and> i \<noteq> Some (JString oid) then (Inl ImmutableField, st)
                         else
                           let doctor = d ++ upd
                           in (Inr \<lparr> status = 200,
                                     body = DocJson (Some (tracked (hydrate doctor))) \<rparr>,
                               replaceById st oid doctor)))))"


section \<open>Chunk upload and finalisation\<close>

definition videoDir :: "string list \<Rightarrow> string \<Rightarrow> pathname" where
  "videoDir app videoId = path_join (dirname app) [''videos'', videoId]"

text \<open>
  A request parameter built to leave the videos directory: it climbs to the root and
  descends to a chosen absolute path.
\<close>

fun joinPath :: "string list \<Rightarrow> string" where
  "joinPath [] = []"
| "joinPath [s] = s"
| "joinPath (s # t # ss) = s @ ''/'' @ joinPath (t # ss)"

definition escapeId :: "string list \<Rightarrow> string list \<Rightarrow> string" where
  "escapeId app target = concat (replicate (Suc (length app)) ''../'') @ joinPath target"

text \<open>
  The loop of the finalizer: \<^verbatim>\<open>readFileSync\<close> of each file, its data handed to the
  write stream. The accumulator is what has been written to the stream so far; a
  failing read leaves the loop with the error and the data written before it.
\<close>

fun readChunks :: "filesystem \<Rightarrow> pathname \<Rightarrow> string list \<Rightarrow> bytes \<Rightarrow> (errno \<times> bytes) + bytes" where
  "readChunks fs d [] written = Inr written"
| "readChunks fs d (f # files) written =
     (case readFileSync fs (path_join d [f]) of
        Inl e \<Rightarrow> Inl (e, written)
      | Inr content \<Rightarrow> readChunks fs d files (written @ content))"

definition chunkFiles :: "string list \<Rightarrow> string list" where
  "chunkFiles names = sort (filter (\<lambda>file. endsWith file ''.webm'') names)"

text \<open>
  Lines 176 to 191 of \<^verbatim>\<open>src/server.js\<close>, the same as lines 185 to 200 of the
  variant with remote hosting (\<^verbatim>\<open>src/unnamed/part_000\<close>). The write stream
  opens its file after the synchronous loop has run, so every chunk is read from the
  state before the output file is created or truncated, and the buffered writes reach
  the file also when a later read has thrown. The result is either the response sent
  without a finished stream, or the file system at the \<^verbatim>\<open>finish\<close> event. What
  an \<^verbatim>\<open>error\<close> event without a listener does to the process is not part of the
  model.
\<close>

definition joinChunks ::
  "filesystem \<Rightarrow> pathname \<Rightarrow> pathname \<Rightarrow> (response \<times> filesystem) + filesystem" where
  "joinChunks fs dir out =
     (case readdirSync fs dir of
        Inl e \<Rightarrow> Inl (serverError (FsError e), fs)
      | Inr names \<Rightarrow>
          let files = chunkFiles names in
          if files = [] then Inl (\<lparr> status = 400, body = Message ''No video chunks found'' \<rparr>, fs)
          else
            (case readChunks fs dir files [] of
               Inl (e, written) \<Rightarrow>
                 Inl (serverError (FsError e),
                      (case writeFile fs out written of Inl _ \<Rightarrow> fs | Inr fs' \<Rightarrow> fs'))
             | Inr written \<Rightarrow>
                 (case writeFile fs out written of
                    Inl e \<Rightarrow> Inl (serverError (FsError e), fs)
                  | Inr fs' \<Rightarrow> Inr fs')))"

text \<open>
  \<^verbatim>\<open>POST /finishUpload/:videoId\<close> of \<^verbatim>\<open>src/server.js\<close>: the merged file stays in
  the directory of the video and its path is returned.
\<close>

definition finishUploadB :: "string list \<Rightarrow> filesystem \<Rightarrow> string \<Rightarrow> response \<times> filesystem" where
  "finishUploadB app fs videoId =
     (let dir = videoDir app videoId;
          outputFilePath = path_join dir [''final_video.webm'']
      in case joinChunks fs dir outputFilePath of
           Inl r \<Rightarrow> r
         | Inr fs' \<Rightarrow>
             (\<lparr> status = 200,
                body = MessagePath ''Video file created successfully'' (pathString outputFilePath) \<rparr>,
              fs'))"

text \<open>
  \<^verbatim>\<open>POST /finishUpload/:videoId\<close> of the variant with remote hosting
  (\<^verbatim>\<open>src/unnamed/part_000\<close>). After the \<^verbatim>\<open>finish\<close> event the file is handed
  to the provider, whose answer for a public id, a file content and a caption is the
  parameter \<open>cloud\<close> (the playable URL, or a failure); then the local file is removed,
  the URL is assigned to the property \<^verbatim>\<open>videoUrl\<close> of the loaded document, and the
  document is saved.
\<close>

definition doctorName :: "jsobject option \<Rightarrow> string" where
  "doctorName doctor =
     (case doctor of
        None \<Rightarrow> ''Unknown Doctor''
      | Some d \<Rightarrow>
          ''Dr. '' @ (case getProp (hydrate d) ''name'' of
                       Some (JString n) \<Rightarrow> n
                     | None \<Rightarrow> ''undefined''
                     | Some _ \<Rightarrow> ''null''))"

definition finishUploadA ::
  "(string \<Rightarrow> bytes \<Rightarrow> string \<Rightarrow> failure + string) \<Rightarrow> string list \<Rightarrow> store \<Rightarrow> filesystem \<Rightarrow> string
     \<Rightarrow> response \<times> filesystem \<times> store" where
  "finishUploadA cloud app st fs videoId =
     (let dir = videoDir app videoId;
          outputFilePath = path_join dir [videoId @ ''.webm'']
      in case joinChunks fs dir outputFilePath of
           Inl (r, fs') \<Rightarrow> (r, fs', st)
         | Inr fs1 \<Rightarrow>
             let doctor = findOneByVideoId st videoId in
             (case readFileSync fs1 outputFilePath of
                Inl e \<Rightarrow> (serverError (FsError e), fs1, st)
              | Inr content \<Rightarrow>
                  (case cloud (videoId @ ''/final_video'') content (doctorName doctor) of
                     Inl e \<Rightarrow> (serverError e, fs1, st)
                   | Inr secure_url \<Rightarrow>
                       (case unlinkSync fs1 outputFilePath of
                          Inl e \<Rightarrow> (serverError (FsError e), fs1, st)
                        | Inr fs2 \<Rightarrow>
                            (case doctor of
                               None \<Rightarrow> (serverError TypeError, fs2, st)
                             | Some d \<Rightarrow>
                                 let m = setProp (hydrate d) ''videoUrl'' (JString secure_url)
                                 in (\<lparr> status = 200,
                                        body = MessagePath ''Video file created successfully'' secure_url \<rparr>,
                                     fs2, saveDoc st m))))))"

text \<open>
  The names multer's disk storage gives the chunks: \<^verbatim>\<open>Date.now()\<close> in decimal, a
  hyphen, and the name the client sent.
\<close>

definition digit :: "nat \<Rightarrow> char" where
  "digit d = ''0123456789'' ! d"

fun decimal :: "nat \<Rightarrow> string" where
  "decimal n = (if n < 10 then [digit n] else decimal (n div 10) @ [digit (n mod 10)])"

declare decimal.simps [simp del]

definition chunkName :: "nat \<Rightarrow> string \<Rightarrow> string" where
  "chunkName now originalname = decimal now @ ''-'' @ originalname"

text \<open>
  \<^verbatim>\<open>POST /upload/:videoId\<close> with the optional file of the field \<^verbatim>\<open>video\<close>: the
  destination callback creates the directory, the storage engine writes the file; an
  error of either reaches Express's default error handler.
\<close>

definition upload ::
  "string list \<Rightarrow> filesystem \<Rightarrow> string \<Rightarrow> nat \<Rightarrow> (string \<times> bytes) option \<Rightarrow> response \<times> filesystem" where
  "upload app fs videoId now file =
     (case file of
        None \<Rightarrow> (\<lparr> status = 200, body = Message ''Video chunk uploaded successfully'' \<rparr>, fs)
      | Some (originalname, content) \<Rightarrow>
          let dir = videoDir app videoId in
          (case (if \<not> existsSync fs dir then mkdirSync_recursive fs dir else Inr fs) of
             Inl e \<Rightarrow> (\<lparr> status = 500, body = DefaultError \<rparr>, fs)
           | Inr fs1 \<Rightarrow>
               (case writeFile fs1 (path_join dir [chunkName now originalname]) content of
                  Inl e \<Rightarrow> (\<lparr> status = 500, body = DefaultError \<rparr>, fs1)
                | Inr fs2 \<Rightarrow>
                    (\<lparr> status = 200, body = Message ''Video chunk uploaded successfully'' \<rparr>, fs2))))"


section \<open>Removal of video artifacts\<close>

text \<open>
  The loop \<^verbatim>\<open>for (const file of files) fs.unlinkSync(path.join(videoDir, file))\<close>; a
  failing call leaves the loop with the error and the state reached.
\<close>

fun unlinkAll :: "filesystem \<Rightarrow> pathname \<Rightarrow> string list \<Rightarrow> (errno \<times> filesystem) + filesystem" where
  "unlinkAll fs d [] = Inr fs"
| "unlinkAll fs d (f # files) =
     (case unlinkSync fs (path_join d [f]) of
        Inl e \<Rightarrow> Inl (e, fs)
      | Inr fs' \<Rightarrow> unlinkAll fs' d files)"

text \<open>
  The body of \<^verbatim>\<open>if (fs.existsSync(videoDir))\<close> in the two deleting handlers: list
  the directory, unlink every entry, remove the directory.
\<close>

definition clearDir :: "filesystem \<Rightarrow> pathname \<Rightarrow> (errno \<times> filesystem) + filesystem" where
  "clearDir fs dir =
     (case readdirSync fs dir of
        Inl e \<Rightarrow> Inl (e, fs)
      | Inr files \<Rightarrow>
          (case unlinkAll fs dir files of
             Inl r \<Rightarrow> Inl r
           | Inr fs1 \<Rightarrow>
               (case rmdirSync fs1 dir of
                  Inl e \<Rightarrow> Inl (e, fs1)
                | Inr fs2 \<Rightarrow> Inr fs2)))"

text \<open>\<^verbatim>\<open>DELETE /deleteVideo/:videoId\<close>, the same in both variants.\<close>

definition deleteVideo :: "string list \<Rightarrow> filesystem \<Rightarrow> string \<Rightarrow> response \<times> filesystem" where
  "deleteVideo app fs videoId =
     (let dir = videoDir app videoId in
      if existsSync fs dir then
        (case clearDir fs dir of
           Inl (e, fs') \<Rightarrow> (serverError (FsError e), fs')
         | Inr fs' \<Rightarrow>
             (\<lparr> status = 200, body = Message ''All video files deleted successfully'' \<rparr>, fs'))
      else (\<lparr> status = 200, body = Message ''All video files deleted successfully'' \<rparr>, fs))"

text \<open>
  \<^verbatim>\<open>DELETE /doctors/:id\<close> of the variant that keeps the videos on disk
  (\<^verbatim>\<open>src/server.js\<close>). The document
  is removed before the directory is touched; \<^verbatim>\<open>path.join\<close> throws a
  \<^verbatim>\<open>TypeError\<close> for a video identifier that is not a string.
\<close>

definition deleteDoctorB ::
  "(string \<Rightarrow> string option) \<Rightarrow> string list \<Rightarrow> store \<Rightarrow> filesystem \<Rightarrow> string
     \<Rightarrow> response \<times> store \<times> filesystem" where
  "deleteDoctorB castObjectId app st fs ident =
     (case castObjectId ident of
        None \<Rightarrow> (serverError CastError, st, fs)
      | Some oid \<Rightarrow>
          (case findById st oid of
             None \<Rightarrow> (\<lparr> status = 404, body = Message ''Doctor not found'' \<rparr>, st, fs)
           | Some doctor \<Rightarrow>
               let st' = removeById st oid in
               (case getProp (hydrate doctor) ''videoId'' of
                  Some (JString v) \<Rightarrow>
                    let dir = videoDir app v in
                    if existsSync fs dir then
                      (case clearDir fs dir of
                         Inl (e, fs') \<Rightarrow> (serverError (FsError e), st', fs')
                       | Inr fs' \<Rightarrow>
                           (\<lparr> status = 200,
                              body = Message ''Doctor and related video files deleted successfully'' \<rparr>,
                            st', fs'))
                    else
                      (\<lparr> status = 200,
                         body = Message ''Doctor and related video files deleted successfully'' \<rparr>,
                       st', fs)
                | _ \<Rightarrow> (serverError TypeError, st', fs))))"

text \<open>
  \<^verbatim>\<open>DELETE /doctors/:id\<close> of the variant with remote hosting
  (\<^verbatim>\<open>src/unnamed/part_000\<close>): the provider is asked
  to destroy the video when the loaded document has a truthy \<^verbatim>\<open>videoUrl\<close>; the
  provider's answer for a public id is the parameter \<open>destroy\<close>. The file system is
  not touched.
\<close>

definition publicIdOf :: "string \<Rightarrow> string" where
  "publicIdOf videoUrl = hd (splitOn CHR ''.'' (last (splitOn CHR ''/'' videoUrl)))"

definition deleteDoctorA ::
  "(string \<Rightarrow> string option) \<Rightarrow> (string \<Rightarrow> failure option) \<Rightarrow> store \<Rightarrow> string
     \<Rightarrow> response \<times> store" where
  "deleteDoctorA castObjectId destroy st ident =
     (case castObjectId ident of
        None \<Rightarrow> (serverError CastError, st)
      | Some oid \<Rightarrow>
          (case findById st oid of
             None \<Rightarrow> (\<lparr> status = 404, body = Message ''Doctor not found'' \<rparr>, st)
           | Some doctor \<Rightarrow>
               let st' = removeById st oid;
                   videoUrl = getProp (hydrate doctor) ''videoUrl''
               in if truthy videoUrl then
                    (case videoUrl of
                       Some (JString u) \<Rightarrow>
                         (case destroy (publicIdOf u) of
                            Some e \<Rightarrow> (serverError e, st')
                          | None \<Rightarrow>
                              (\<lparr> status = 200,
                                 body = Message ''Doctor and related video files deleted successfully'' \<rparr>,
                               st'))
                     | _ \<Rightarrow> (serverError TypeError, st'))
                  else
                    (\<lparr> status = 200,
                       body = Message ''Doctor and related video files deleted successfully'' \<rparr>,
                     st')))"


section \<open>A recording session\<close>

text \<open>
  The scenario of the specification's testable properties: the application lives in
  \<^verbatim>\<open>/srv/app\<close>, and three chunks have arrived for the video \<^verbatim>\<open>v1\<close>, the
  second one with the latest time stamp.
\<close>

definition demoApp :: "string list" where
  "demoApp = [''srv'', ''app'']"

definition demoDir :: pathname where
  "demoDir = \<lparr> segments = [''srv'', ''app'', ''videos'', ''v1''], dirsep = False \<rparr>"

definition demoFs :: filesystem where
  "demoFs =
     [([''srv''], Dir),
      ([''srv'', ''app''], Dir),
      ([''srv'', ''app'', ''videos''], Dir),
      ([''srv'', ''app'', ''videos'', ''v1''], Dir),
      ([''srv'', ''app'', ''videos'', ''v1'', ''1700000000000-a.webm''], File [1, 2]),
      ([''srv'', ''app'', ''videos'', ''v1'', ''1700000000050-b.webm''], File [3]),
      ([''srv'', ''app'', ''videos'', ''v1'', ''1700000000010-c.webm''], File [4, 5])]"

definition demoFinal :: filesystem where
  "demoFinal =
     demoFs @ [([''srv'', ''app'', ''videos'', ''v1'', ''final_video.webm''], File [1, 2, 4, 5, 3])]"

definition demoUploads :: "(nat \<times> string) list" where
  "demoUploads = [(1700000000000, ''a.webm''), (1700000000050, ''b.webm''), (1700000000010, ''c.webm'')]"

text \<open>
  The same application with a directory for \<^verbatim>\<open>v1\<close> that holds no chunk, and after
  the removal of the directory; a provider that answers every upload with a URL.
\<close>

definition demoNoChunks :: filesystem where
  "demoNoChunks =
     [([''srv''], Dir),
      ([''srv'', ''app''], Dir),
      ([''srv'', ''app'', ''videos''], Dir),
      ([''srv'', ''app'', ''videos'', ''v1''], Dir),
      ([''srv'', ''app'', ''videos'', ''v1'', ''notes.txt''], File [7])]"

definition demoCleared :: filesystem where
  "demoCleared =
     [([''srv''], Dir),
      ([''srv'', ''app''], Dir),
      ([''srv'', ''app'', ''videos''], Dir)]"

definition demoCloud :: "string \<Rightarrow> bytes \<Rightarrow> string \<Rightarrow> failure + string" where
  "demoCloud publicId content caption = Inr (''https://cdn.example/'' @ publicId @ ''.webm'')"

text \<open>
  A collection with one doctor, whose video is \<^verbatim>\<open>v1\<close>; stand-ins for Joi's
  address rule and for the cast of a string to an ObjectId; and a state in which the
  directory of \<^verbatim>\<open>v1\<close> holds a directory.
\<close>

definition demoIsEmail :: "string \<Rightarrow> bool" where
  "demoIsEmail s \<longleftrightarrow> CHR ''@'' \<in> set s"

definition demoCastObjectId :: "string \<Rightarrow> string option" where
  "demoCastObjectId s = (if length s = 24 then Some s else None)"

definition demoDoctor :: jsobject where
  "demoDoctor =
     [''_id'' \<mapsto> JString ''65a000000000000000000001'',
      ''name'' \<mapsto> JString ''Alice'',
      ''email'' \<mapsto> JString ''a@x.com'',
      ''videoId'' \<mapsto> JString ''v1'']"

definition demoStore :: store where
  "demoStore = [demoDoctor]"


text \<open>A valid payload with a key the schema does not have.\<close>

definition demoPayload :: jsobject where
  "demoPayload =
     [''name'' \<mapsto> JString ''Bob'',
      ''email'' \<mapsto> JString ''b@x.com'',
      ''nickname'' \<mapsto> JString ''Bobby'']"


text \<open>A state with a directory beside the application that holds a file.\<close>

definition demoOutside :: filesystem where
  "demoOutside =
     [([''srv''], Dir),
      ([''srv'', ''app''], Dir),
      ([''srv'', ''app'', ''videos''], Dir),
      ([''srv'', ''data''], Dir),
      ([''srv'', ''data'', ''backup.webm''], File [9])]"

definition demoData :: pathname where
  "demoData = \<lparr> segments = [''srv'', ''data''], dirsep = False \<rparr>"








section \<open>Path names and file-system operations\<close>

lemma splitOn_no_sep: "c \<notin> set s \<Longrightarrow> splitOn c s = [s]"
  by (induction s) auto

lemma properName_last: "properName f \<Longrightarrow> last f \<noteq> CHR ''/''"
  unfolding properName_def using last_in_set by metis

lemma path_join_name:
  "properName f \<Longrightarrow> path_join d [f] = \<lparr> segments = segments d @ [f], dirsep = False \<rparr>"
  using properName_last [of f] by (auto simp: properName_def path_join_def splitOn_no_sep)

lemma dirsep_join_file: "f \<noteq> [] \<Longrightarrow> dirsep (path_join d [f]) = (last f = CHR ''/'')"
  by (simp add: path_join_def)

lemma lookup_update:
  "k \<noteq> [] \<Longrightarrow> lookup (AList.update k v fs) q = (if q = k then Some v else lookup fs q)"
  by (simp add: lookup_def update_conv')

lemma lookup_delete:
  "k \<noteq> [] \<Longrightarrow> lookup (AList.delete k fs) q = (if q = k then None else lookup fs q)"
  by (simp add: lookup_def delete_conv')

lemma writeFile_Inr:
  assumes "writeFile fs p c = Inr fs'"
  shows "fs' = AList.update (segments p) (File c) fs \<and> segments p \<noteq> [] \<and> \<not> dirsep p"
  using assms by (auto simp: writeFile_def split: if_splits option.splits node.splits)

lemma writeFile_lookup:
  assumes "writeFile fs p c = Inr fs'"
  shows "lookup fs' q = (if q = segments p then Some (File c) else lookup fs q)"
  using writeFile_Inr [OF assms] by (simp add: lookup_update)

lemma readFileSync_lookup:
  "\<not> dirsep p \<Longrightarrow>
     readFileSync fs p =
       (case lookup fs (segments p) of
          None \<Rightarrow> Inl ENOENT
        | Some Dir \<Rightarrow> Inl EISDIR
        | Some (File c) \<Rightarrow> Inr c)"
  by (simp add: readFileSync_def stat_def split: option.splits node.splits)


section \<open>The finalizer\<close>

lemma readChunks_Inr:
  "readChunks fs d files acc = Inr w \<Longrightarrow>
     \<exists>contents. map (\<lambda>f. readFileSync fs (path_join d [f])) files = map Inr contents
        \<and> w = acc @ concat contents"
proof (induction files arbitrary: acc)
  case Nil
  then show ?case by simp
next
  case (Cons f files)
  from Cons.prems obtain c where c: "readFileSync fs (path_join d [f]) = Inr c"
    and r: "readChunks fs d files (acc @ c) = Inr w"
    by (auto split: sum.splits)
  from Cons.IH [OF r] obtain cs where
    "map (\<lambda>f. readFileSync fs (path_join d [f])) files = map Inr cs" "w = (acc @ c) @ concat cs"
    by blast
  with c have "map (\<lambda>f. readFileSync fs (path_join d [f])) (f # files) = map Inr (c # cs)
      \<and> w = acc @ concat (c # cs)" by simp
  then show ?case by blast
qed

lemma joinChunks_Inr:
  assumes "joinChunks fs dir out = Inr fs'"
  shows "\<exists>names written. readdirSync fs dir = Inr names \<and> chunkFiles names \<noteq> []
     \<and> readChunks fs dir (chunkFiles names) [] = Inr written \<and> writeFile fs out written = Inr fs'"
  using assms by (auto simp: joinChunks_def Let_def split: sum.splits if_splits prod.splits)

lemma finishUploadB_200:
  assumes "finishUploadB app fs videoId = (r, fs')" "status r = 200"
  shows "joinChunks fs (videoDir app videoId)
           (path_join (videoDir app videoId) [''final_video.webm'']) = Inr fs'"
  using assms
  by (auto simp: finishUploadB_def Let_def joinChunks_def serverError_def
      split: sum.splits if_splits prod.splits)

lemma finalize_content:
  assumes "finishUploadB app fs videoId = (r, fs')" "status r = 200"
  shows "\<exists>names contents.
         readdirSync fs (videoDir app videoId) = Inr names \<and>
         map (\<lambda>f. readFileSync fs (path_join (videoDir app videoId) [f]))
             (sort (filter (\<lambda>f. endsWith f ''.webm'') names)) = map Inr contents \<and>
         contents \<noteq> [] \<and>
         readFileSync fs' (path_join (videoDir app videoId) [''final_video.webm''])
           = Inr (concat contents)"
proof -
  let ?dir = "videoDir app videoId"
  let ?out = "path_join ?dir [''final_video.webm'']"
  from joinChunks_Inr [OF finishUploadB_200 [OF assms]] obtain names written where
    n: "readdirSync fs ?dir = Inr names" and ne: "chunkFiles names \<noteq> []"
    and rc: "readChunks fs ?dir (chunkFiles names) [] = Inr written"
    and wf: "writeFile fs ?out written = Inr fs'" by blast
  from readChunks_Inr [OF rc] obtain contents where
    m: "map (\<lambda>f. readFileSync fs (path_join ?dir [f])) (chunkFiles names) = map Inr contents"
    and w: "written = concat contents" by auto
  from m ne have c: "contents \<noteq> []" by auto
  have "\<not> dirsep ?out" by (simp add: dirsep_join_file)
  then have "readFileSync fs' ?out = Inr written"
    by (simp add: readFileSync_lookup writeFile_lookup [OF wf])
  with n m c w show ?thesis unfolding chunkFiles_def by blast
qed

lemma unlinkSync_Inr:
  assumes "unlinkSync fs p = Inr fs'"
  shows "fs' = AList.delete (segments p) fs \<and> segments p \<noteq> []"
  using assms
  by (auto simp: unlinkSync_def stat_def lookup_def split: sum.splits node.splits option.splits if_splits)

lemma saveDoc_videoUrl: "saveDoc st (setProp (hydrate d) ''videoUrl'' v) = st"
  by (simp add: saveDoc_def setProp_def hydrate_def schemaPaths_def)

lemma joinChunks_Inl_status:
  "joinChunks fs dir out = Inl (r, fs') \<Longrightarrow> status r = 400 \<or> status r = 500"
  by (auto simp: joinChunks_def Let_def serverError_def split: sum.splits if_splits prod.splits)

lemma finishUploadA_200:
  assumes "finishUploadA cloud app st fs videoId = (r, fs', st')" "status r = 200"
  shows "\<exists>fs1 content d url.
     joinChunks fs (videoDir app videoId) (path_join (videoDir app videoId) [videoId @ ''.webm'']) = Inr fs1 \<and>
     readFileSync fs1 (path_join (videoDir app videoId) [videoId @ ''.webm'']) = Inr content \<and>
     cloud (videoId @ ''/final_video'') content (doctorName (Some d)) = Inr url \<and>
     unlinkSync fs1 (path_join (videoDir app videoId) [videoId @ ''.webm'']) = Inr fs' \<and>
     findOneByVideoId st videoId = Some d \<and>
     r = \<lparr> status = 200, body = MessagePath ''Video file created successfully'' url \<rparr> \<and>
     st' = st"
proof (cases "joinChunks fs (videoDir app videoId) (path_join (videoDir app videoId) [videoId @ ''.webm''])")
  case (Inl x)
  obtain r0 fs0 where x: "x = (r0, fs0)" by (cases x)
  with Inl assms(1) have "r = r0" by (simp add: finishUploadA_def)
  with joinChunks_Inl_status [OF Inl [unfolded x]] assms(2) show ?thesis by simp
next
  case (Inr fs1)
  with assms show ?thesis
    by (auto simp: finishUploadA_def Let_def serverError_def saveDoc_videoUrl
        split: sum.splits option.splits)
qed

lemma finishUploadA_store: "snd (snd (finishUploadA cloud app st fs videoId)) = st"
  by (auto simp: finishUploadA_def Let_def saveDoc_videoUrl split: sum.splits option.splits prod.splits)

lemma finalizeA_content:
  assumes "finishUploadA cloud app st fs videoId = (r, fs', st')" "status r = 200"
  shows "\<exists>names contents doctor url.
         readdirSync fs (videoDir app videoId) = Inr names \<and>
         map (\<lambda>f. readFileSync fs (path_join (videoDir app videoId) [f]))
             (sort (filter (\<lambda>f. endsWith f ''.webm'') names)) = map Inr contents \<and>
         contents \<noteq> [] \<and>
         cloud (videoId @ ''/final_video'') (concat contents) (doctorName (Some doctor)) = Inr url \<and>
         body r = MessagePath ''Video file created successfully'' url"
proof -
  let ?dir = "videoDir app videoId"
  let ?out = "path_join ?dir [videoId @ ''.webm'']"
  from finishUploadA_200 [OF assms] obtain fs1 content d url where
    j: "joinChunks fs ?dir ?out = Inr fs1"
    and rf: "readFileSync fs1 ?out = Inr content"
    and cl: "cloud (videoId @ ''/final_video'') content (doctorName (Some d)) = Inr url"
    and r: "r = \<lparr> status = 200, body = MessagePath ''Video file created successfully'' url \<rparr>"
    by blast
  from joinChunks_Inr [OF j] obtain names written where
    n: "readdirSync fs ?dir = Inr names" and ne: "chunkFiles names \<noteq> []"
    and rc: "readChunks fs ?dir (chunkFiles names) [] = Inr written"
    and wf: "writeFile fs ?out written = Inr fs1" by blast
  from readChunks_Inr [OF rc] obtain contents where
    m: "map (\<lambda>f. readFileSync fs (path_join ?dir [f])) (chunkFiles names) = map Inr contents"
    and w: "written = concat contents" by auto
  from m ne have c: "contents \<noteq> []" by auto
  from writeFile_Inr [OF wf] have "\<not> dirsep ?out" by simp
  then have "readFileSync fs1 ?out = Inr written"
    by (simp add: readFileSync_lookup writeFile_lookup [OF wf])
  with rf w have "content = concat contents" by simp
  with n m c cl r show ?thesis unfolding chunkFiles_def by auto
qed


section \<open>Time stamps and the order of file names\<close>

lemma of_char_digit: "a < 10 \<Longrightarrow> of_char (digit a) = 48 + a"
proof -
  assume "a < 10"
  then have "a = 0 \<or> a = 1 \<or> a = 2 \<or> a = 3 \<or> a = 4 \<or> a = 5 \<or> a = 6 \<or> a = 7 \<or> a = 8 \<or> a = 9"
    by arith
  then show ?thesis by (elim disjE) (simp_all add: digit_def)
qed

lemma digit_less: "a < 10 \<Longrightarrow> b < 10 \<Longrightarrow> digit a < digit b \<longleftrightarrow> a < b"
  by (simp add: less_char_def of_char_digit)

lemma length_decimal_small: "n < 10 \<Longrightarrow> length (decimal n) = 1"
  by (simp add: decimal.simps)

lemma length_decimal_pos: "0 < length (decimal n)"
  by (induction n rule: decimal.induct) (subst decimal.simps, simp)

lemma length_decimal_big: "\<not> n < 10 \<Longrightarrow> length (decimal n) = Suc (length (decimal (n div 10)))"
  by (subst decimal.simps) simp

lemma same_width_small: "length (decimal a) = length (decimal b) \<Longrightarrow> a < 10 \<longleftrightarrow> b < 10"
  using length_decimal_pos [of "a div 10"] length_decimal_pos [of "b div 10"]
  by (cases "a < 10"; cases "b < 10") (simp_all add: length_decimal_small length_decimal_big)

lemma div_mod_less:
  assumes "(a::nat) < b"
  shows "a div 10 < b div 10 \<or> (a div 10 = b div 10 \<and> a mod 10 < b mod 10)"
proof -
  have le: "a div 10 \<le> b div 10" using assms by (simp add: div_le_mono)
  have "a mod 10 < b mod 10" if eq: "a div 10 = b div 10"
  proof -
    have "10 * (a div 10) + a mod 10 < 10 * (b div 10) + b mod 10"
      using assms by (simp only: mult_div_mod_eq)
    then have "10 * (b div 10) + a mod 10 < 10 * (b div 10) + b mod 10"
      by (simp only: eq)
    then show ?thesis by (simp only: nat_add_left_cancel_less)
  qed
  with le show ?thesis by (auto simp only: le_less)
qed

text \<open>Decimal numerals of the same width compare as the numbers do.\<close>

lemma decimal_less:
  "length (decimal a) = length (decimal b) \<Longrightarrow> a < b \<Longrightarrow> decimal a < decimal b"
proof (induction a arbitrary: b rule: decimal.induct)
  case (1 a)
  show ?case
  proof (cases "a < 10")
    case True
    with "1.prems" have "b < 10" using same_width_small by blast
    with True "1.prems" show ?thesis
      by (simp add: decimal.simps [of a] decimal.simps [of b] digit_less)
  next
    case False
    with "1.prems" have b: "\<not> b < 10" using same_width_small by blast
    from False b "1.prems" have len: "length (decimal (a div 10)) = length (decimal (b div 10))"
      by (simp add: length_decimal_big)
    have da: "decimal a = decimal (a div 10) @ [digit (a mod 10)]"
      using False by (subst decimal.simps) simp
    have db: "decimal b = decimal (b div 10) @ [digit (b mod 10)]"
      using b by (subst decimal.simps) simp
    from "1.prems" have "a div 10 < b div 10 \<or> (a div 10 = b div 10 \<and> a mod 10 < b mod 10)"
      by (intro div_mod_less)
    then show ?thesis
    proof
      assume "a div 10 < b div 10"
      from "1.IH" [OF False len this] len show ?thesis
        unfolding da db list_less_def by (intro lexord_sufI) simp_all
    next
      assume "a div 10 = b div 10 \<and> a mod 10 < b mod 10"
      then show ?thesis unfolding da db list_less_def
        by (simp add: lexord_same_pref_iff digit_less)
    qed
  qed
qed

lemma chunkName_less:
  assumes "length (decimal a) = length (decimal b)" "a < b"
  shows "chunkName a x < chunkName b y"
  using decimal_less [OF assms] assms(1)
  unfolding chunkName_def list_less_def by (intro lexord_sufI) simp_all

lemma endsWith_append: "endsWith s t \<Longrightarrow> endsWith (p @ s) t"
  by (auto simp: endsWith_def)

lemma sorted_chunkNames:
  assumes "\<forall>u\<in>set us. length (decimal (fst u)) = w" "sorted (map fst us)" "distinct (map fst us)"
  shows "sorted (map (\<lambda>u. chunkName (fst u) (snd u)) us)"
  using assms
proof (induction us)
  case Nil
  then show ?case by simp
next
  case (Cons u us)
  have "chunkName (fst u) (snd u) \<le> chunkName (fst v) (snd v)" if "v \<in> set us" for v
  proof -
    from that Cons.prems have "fst u < fst v" by (auto simp: le_less)
    moreover from that Cons.prems have "length (decimal (fst u)) = length (decimal (fst v))" by simp
    ultimately show ?thesis using chunkName_less by (simp add: less_imp_le)
  qed
  with Cons show ?case by auto
qed

lemma chunkFiles_timestamp_order:
  assumes "\<forall>u\<in>set us. length (decimal (fst u)) = w \<and> endsWith (snd u) ''.webm''"
    and "distinct (map fst us)"
    and "mset listing = mset (map (\<lambda>u. chunkName (fst u) (snd u)) us)"
  shows "sort (filter (\<lambda>f. endsWith f ''.webm'') listing)
           = map (\<lambda>u. chunkName (fst u) (snd u)) (sort_key fst us)"
proof -
  let ?f = "\<lambda>u. chunkName (fst u) (snd u)"
  have "set listing = set (map ?f us)" using assms(3) by (metis set_mset_mset)
  moreover have "endsWith (?f u) ''.webm''" if "u \<in> set us" for u
    using that assms(1) endsWith_append [of "snd u" "''.webm''" "decimal (fst u) @ ''-''"]
    by (simp add: chunkName_def)
  ultimately have "\<forall>x\<in>set listing. endsWith x ''.webm''" by auto
  then have flt: "filter (\<lambda>f. endsWith f ''.webm'') listing = listing" by simp
  have "mset (map fst (sort_key fst us)) = mset (map fst us)" by simp
  then have "distinct (map fst (sort_key fst us))"
    using assms(2) mset_eq_imp_distinct_iff by blast
  then have "sorted (map ?f (sort_key fst us))"
    by (intro sorted_chunkNames [where w = w]) (use assms(1) in auto)
  moreover have "mset (map ?f (sort_key fst us)) = mset listing"
    using assms(3) by simp
  ultimately show ?thesis unfolding flt by (simp add: properties_for_sort)
qed


section \<open>The recording session, evaluated\<close>

lemma demo_videoDir: "videoDir demoApp ''v1'' = demoDir"
  by (simp add: videoDir_def demoApp_def demoDir_def path_join_def dirname_def)

lemma demo_readdir:
  "readdirSync demoFs demoDir =
     Inr [''1700000000000-a.webm'', ''1700000000050-b.webm'', ''1700000000010-c.webm'']"
  by (simp add: readdirSync_def lookup_def children_def demoFs_def demoDir_def)

lemma demo_chunkFiles:
  "chunkFiles [''1700000000000-a.webm'', ''1700000000050-b.webm'', ''1700000000010-c.webm'']
     = [''1700000000000-a.webm'', ''1700000000010-c.webm'', ''1700000000050-b.webm'']"
  by (simp add: chunkFiles_def endsWith_def)

lemma demo_read:
  "readChunks demoFs demoDir
     [''1700000000000-a.webm'', ''1700000000010-c.webm'', ''1700000000050-b.webm''] []
     = Inr [1, 2, 4, 5, 3]"
  by (simp add: path_join_name properName_def readFileSync_def stat_def lookup_def
      demoFs_def demoDir_def)

lemma demo_write:
  "writeFile demoFs (path_join demoDir [''final_video.webm'']) [1, 2, 4, 5, 3] = Inr demoFinal"
  by (simp add: path_join_name properName_def writeFile_def lookup_def demoFs_def demoDir_def
      demoFinal_def)

lemma demo_joinChunks:
  "joinChunks demoFs demoDir (path_join demoDir [''final_video.webm'']) = Inr demoFinal"
  by (simp add: joinChunks_def demo_readdir demo_chunkFiles demo_read demo_write
      del: readChunks.simps)

lemma demo_finish:
  "finishUploadB demoApp demoFs ''v1'' =
     (\<lparr> status = 200,
        body = MessagePath ''Video file created successfully''
                 ''/srv/app/videos/v1/final_video.webm'' \<rparr>, demoFinal)"
proof -
  have "pathString (path_join demoDir [''final_video.webm''])
      = ''/srv/app/videos/v1/final_video.webm''"
    by (simp add: path_join_name properName_def demoDir_def)
  with demo_joinChunks show ?thesis
    by (simp add: finishUploadB_def demo_videoDir del: pathString.simps)
qed

lemma demo_names:
  "map (\<lambda>u. chunkName (fst u) (snd u)) demoUploads =
     [''1700000000000-a.webm'', ''1700000000050-b.webm'', ''1700000000010-c.webm'']"
  by (simp add: demoUploads_def chunkName_def decimal.simps digit_def)

lemma demo_outA:
  "path_join demoDir [''v1'' @ ''.webm'']
     = \<lparr> segments = [''srv'', ''app'', ''videos'', ''v1'', ''v1.webm''], dirsep = False \<rparr>"
  by (simp add: path_join_name properName_def demoDir_def)

lemma demo_joinChunksA:
  "joinChunks demoFs demoDir (path_join demoDir [''v1'' @ ''.webm''])
     = Inr (demoFs @ [([''srv'', ''app'', ''videos'', ''v1'', ''v1.webm''], File [1, 2, 4, 5, 3])])"
proof -
  have "writeFile demoFs (path_join demoDir [''v1'' @ ''.webm'']) [1, 2, 4, 5, 3]
      = Inr (demoFs @ [([''srv'', ''app'', ''videos'', ''v1'', ''v1.webm''], File [1, 2, 4, 5, 3])])"
    unfolding demo_outA by (simp add: writeFile_def lookup_def demoFs_def)
  then show ?thesis
    by (simp add: joinChunks_def demo_readdir demo_chunkFiles demo_read
        del: readChunks.simps append.simps)
qed

lemma demo_findOne: "findOneByVideoId demoStore ''v1'' = Some demoDoctor"
  by (simp add: findOneByVideoId_def demoStore_def demoDoctor_def)

lemma demo_finishA:
  "finishUploadA demoCloud demoApp demoStore demoFs ''v1'' =
     (\<lparr> status = 200,
        body = MessagePath ''Video file created successfully''
                 ''https://cdn.example/v1/final_video.webm'' \<rparr>, demoFs, demoStore)"
proof -
  let ?out = "path_join demoDir [''v1'' @ ''.webm'']"
  let ?fs1 = "demoFs @ [([''srv'', ''app'', ''videos'', ''v1'', ''v1.webm''], File [1, 2, 4, 5, 3])]"
  have r: "readFileSync ?fs1 ?out = Inr [1, 2, 4, 5, 3]"
    unfolding demo_outA by (simp add: readFileSync_def stat_def lookup_def demoFs_def)
  have u: "unlinkSync ?fs1 ?out = Inr demoFs"
    unfolding demo_outA by (simp add: unlinkSync_def stat_def lookup_def demoFs_def)
  have c: "demoCloud (''v1'' @ ''/final_video'') [1, 2, 4, 5, 3] (doctorName (Some demoDoctor))
      = Inr ''https://cdn.example/v1/final_video.webm''"
    by (simp add: demoCloud_def)
  show ?thesis
    unfolding finishUploadA_def demo_videoDir Let_def demo_joinChunksA sum.case r c u
      demo_findOne option.case saveDoc_videoUrl ..
qed


section \<open>The content of the finalized video\<close>

text \<open>
  C1. For every video identifier whose directory holds chunk files ending in
  \<^verbatim>\<open>.webm\<close>, a successful finalize produces an output file whose content is the
  concatenation of the contents of those files, read in the sorted order of their
  names: the variant that keeps the video on disk leaves that file in the directory,
  the variant with remote hosting hands that content to the provider. For names that
  start with time stamps of one width, the sorted order is the ascending order of the
  time stamps, whatever the order in which the chunks arrived.
\<close>

theorem finalize_concatenates_sorted_chunks:
  "(finishUploadB app fs videoId = (r, fs') \<and> status r = 200 \<longrightarrow>
      (\<exists>names contents.
         readdirSync fs (videoDir app videoId) = Inr names \<and>
         map (\<lambda>f. readFileSync fs (path_join (videoDir app videoId) [f]))
             (sort (filter (\<lambda>f. endsWith f ''.webm'') names)) = map Inr contents \<and>
         contents \<noteq> [] \<and>
         readFileSync fs' (path_join (videoDir app videoId) [''final_video.webm''])
           = Inr (concat contents)))
   \<and> (finishUploadA cloud app st fs videoId = (ra, fsa, sta) \<and> status ra = 200 \<longrightarrow>
      (\<exists>names contents doctor url.
         readdirSync fs (videoDir app videoId) = Inr names \<and>
         map (\<lambda>f. readFileSync fs (path_join (videoDir app videoId) [f]))
             (sort (filter (\<lambda>f. endsWith f ''.webm'') names)) = map Inr contents \<and>
         contents \<noteq> [] \<and>
         cloud (videoId @ ''/final_video'') (concat contents) (doctorName (Some doctor))
           = Inr url \<and>
         body ra = MessagePath ''Video file created successfully'' url))
   \<and> ((\<forall>u\<in>set us. length (decimal (fst u)) = w \<and> endsWith (snd u) ''.webm'') \<and>
        distinct (map fst us) \<and>
        mset listing = mset (map (\<lambda>u. chunkName (fst u) (snd u)) us) \<longrightarrow>
        sort (filter (\<lambda>f. endsWith f ''.webm'') listing)
          = map (\<lambda>u. chunkName (fst u) (snd u)) (sort_key fst us))"
  using finalize_content [of app fs videoId r fs']
    finalizeA_content [of cloud app st fs videoId ra fsa sta]
    chunkFiles_timestamp_order [of us w listing]
  by blast

theorem finalize_concatenates_sorted_chunks_witness:
  "finishUploadB demoApp demoFs ''v1'' =
     (\<lparr> status = 200,
        body = MessagePath ''Video file created successfully''
                 ''/srv/app/videos/v1/final_video.webm'' \<rparr>, demoFinal)
   \<and> (\<exists>names contents.
         readdirSync demoFs (videoDir demoApp ''v1'') = Inr names \<and>
         map (\<lambda>f. readFileSync demoFs (path_join (videoDir demoApp ''v1'') [f]))
             (sort (filter (\<lambda>f. endsWith f ''.webm'') names)) = map Inr contents \<and>
         contents \<noteq> [] \<and>
         readFileSync demoFinal (path_join (videoDir demoApp ''v1'') [''final_video.webm''])
           = Inr (concat contents))
   \<and> readFileSync demoFinal (path_join demoDir [''final_video.webm'']) = Inr [1, 2, 4, 5, 3]
   \<and> finishUploadA demoCloud demoApp demoStore demoFs ''v1'' =
     (\<lparr> status = 200,
        body = MessagePath ''Video file created successfully''
                 ''https://cdn.example/v1/final_video.webm'' \<rparr>, demoFs, demoStore)
   \<and> (\<exists>names contents doctor url.
         readdirSync demoFs (videoDir demoApp ''v1'') = Inr names \<and>
         map (\<lambda>f. readFileSync demoFs (path_join (videoDir demoApp ''v1'') [f]))
             (sort (filter (\<lambda>f. endsWith f ''.webm'') names)) = map Inr contents \<and>
         contents \<noteq> [] \<and>
         demoCloud (''v1'' @ ''/final_video'') (concat contents) (doctorName (Some doctor))
           = Inr url \<and>
         MessagePath ''Video file created successfully''
           ''https://cdn.example/v1/final_video.webm''
           = MessagePath ''Video file created successfully'' url)
   \<and> sort (filter (\<lambda>f. endsWith f ''.webm'')
        [''1700000000050-b.webm'', ''1700000000010-c.webm'', ''1700000000000-a.webm''])
      = [''1700000000000-a.webm'', ''1700000000010-c.webm'', ''1700000000050-b.webm'']"
proof -
  let ?r = "\<lparr> status = 200,
        body = MessagePath ''Video file created successfully''
                 ''/srv/app/videos/v1/final_video.webm'' \<rparr>"
  let ?ra = "\<lparr> status = 200,
        body = MessagePath ''Video file created successfully''
                 ''https://cdn.example/v1/final_video.webm'' \<rparr>"
  let ?listing = "[''1700000000050-b.webm'', ''1700000000010-c.webm'', ''1700000000000-a.webm'']"
  note t = finalize_concatenates_sorted_chunks
    [where app = demoApp and fs = demoFs and videoId = "''v1''" and r = ?r and fs' = demoFinal
       and cloud = demoCloud and st = demoStore and ra = ?ra and fsa = demoFs
       and sta = demoStore and us = demoUploads and w = 13 and listing = ?listing]
  have a: "\<exists>names contents.
         readdirSync demoFs (videoDir demoApp ''v1'') = Inr names \<and>
         map (\<lambda>f. readFileSync demoFs (path_join (videoDir demoApp ''v1'') [f]))
             (sort (filter (\<lambda>f. endsWith f ''.webm'') names)) = map Inr contents \<and>
         contents \<noteq> [] \<and>
         readFileSync demoFinal (path_join (videoDir demoApp ''v1'') [''final_video.webm''])
           = Inr (concat contents)"
    by (rule t [THEN conjunct1, rule_format]) (simp add: demo_finish)
  have sa: "status ?ra = 200" by simp
  note ta = t [THEN conjunct2, THEN conjunct1, rule_format, OF conjI [OF demo_finishA sa]]
  have ba: "body ?ra = MessagePath ''Video file created successfully''
      ''https://cdn.example/v1/final_video.webm''" by simp
  have h: "\<forall>u\<in>set demoUploads. length (decimal (fst u)) = 13 \<and> endsWith (snd u) ''.webm''"
    by (simp add: demoUploads_def decimal.simps endsWith_def)
  have d: "distinct (map fst demoUploads)"
    by (simp add: demoUploads_def)
  have m: "mset ?listing = mset (map (\<lambda>u. chunkName (fst u) (snd u)) demoUploads)"
    unfolding demo_names by simp
  have "sort (filter (\<lambda>f. endsWith f ''.webm'') ?listing)
      = map (\<lambda>u. chunkName (fst u) (snd u)) (sort_key fst demoUploads)"
    by (rule t [THEN conjunct2, THEN conjunct2, rule_format]) (intro conjI h d m)
  also have "sort_key fst demoUploads =
      [(1700000000000, ''a.webm''), (1700000000010, ''c.webm''), (1700000000050, ''b.webm'')]"
    by (simp add: demoUploads_def)
  also have "map (\<lambda>u. chunkName (fst u) (snd u)) \<dots> =
      [''1700000000000-a.webm'', ''1700000000010-c.webm'', ''1700000000050-b.webm'']"
    by (simp add: chunkName_def decimal.simps digit_def)
  finally have b: "sort (filter (\<lambda>f. endsWith f ''.webm'') ?listing) =
      [''1700000000000-a.webm'', ''1700000000010-c.webm'', ''1700000000050-b.webm'']" .
  have c: "readFileSync demoFinal (path_join demoDir [''final_video.webm'']) = Inr [1, 2, 4, 5, 3]"
    by (simp add: path_join_name properName_def readFileSync_def stat_def lookup_def
        demoFs_def demoDir_def demoFinal_def)
  from demo_finish a c demo_finishA ta [unfolded ba] b show ?thesis by (intro conjI)
qed


section \<open>Finalize without chunks\<close>

lemma not_exists_readdir:
  "\<not> existsSync fs p \<Longrightarrow> \<exists>e. readdirSync fs p = Inl e"
  by (auto simp: existsSync_def stat_def readdirSync_def split: option.splits node.splits if_splits)

lemma joinChunks_no_dir:
  "readdirSync fs dir = Inl e \<Longrightarrow> joinChunks fs dir out = Inl (serverError (FsError e), fs)"
  by (simp add: joinChunks_def)

lemma joinChunks_no_chunks:
  "readdirSync fs dir = Inr names \<Longrightarrow> filter (\<lambda>f. endsWith f ''.webm'') names = [] \<Longrightarrow>
     joinChunks fs dir out = Inl (\<lparr> status = 400, body = Message ''No video chunks found'' \<rparr>, fs)"
  by (simp add: joinChunks_def chunkFiles_def)

lemma finishUploadB_Inl:
  "joinChunks fs (videoDir app videoId) (path_join (videoDir app videoId) [''final_video.webm'']) = Inl x
    \<Longrightarrow> finishUploadB app fs videoId = x"
  by (simp add: finishUploadB_def)

lemma finishUploadA_Inl:
  "joinChunks fs (videoDir app videoId) (path_join (videoDir app videoId) [videoId @ ''.webm'']) = Inl (r, fs')
    \<Longrightarrow> finishUploadA cloud app st fs videoId = (r, fs', st)"
  by (simp add: finishUploadA_def)

text \<open>
  C2 (amended). For every video identifier whose directory exists and lists no name
  ending in \<^verbatim>\<open>.webm\<close>, finalize answers 400 and leaves the file system as it
  was, in both variants. When the directory does not exist, the listing throws and
  finalize answers 500, again without creating a file.
\<close>

theorem finalize_without_chunks:
  "(readdirSync fs (videoDir app videoId) = Inr names \<and>
      filter (\<lambda>f. endsWith f ''.webm'') names = [] \<longrightarrow>
      finishUploadB app fs videoId
        = (\<lparr> status = 400, body = Message ''No video chunks found'' \<rparr>, fs) \<and>
      finishUploadA cloud app st fs videoId
        = (\<lparr> status = 400, body = Message ''No video chunks found'' \<rparr>, fs, st))
   \<and> (\<not> existsSync fs (videoDir app videoId) \<longrightarrow>
      (\<exists>e. finishUploadB app fs videoId = (\<lparr> status = 500, body = ServerError (FsError e) \<rparr>, fs) \<and>
           finishUploadA cloud app st fs videoId
             = (\<lparr> status = 500, body = ServerError (FsError e) \<rparr>, fs, st)))"
proof (intro conjI impI)
  assume a: "readdirSync fs (videoDir app videoId) = Inr names \<and>
      filter (\<lambda>f. endsWith f ''.webm'') names = []"
  then have a1: "readdirSync fs (videoDir app videoId) = Inr names"
    and a2: "filter (\<lambda>f. endsWith f ''.webm'') names = []" by blast+
  show "finishUploadB app fs videoId
        = (\<lparr> status = 400, body = Message ''No video chunks found'' \<rparr>, fs)"
    by (rule finishUploadB_Inl, rule joinChunks_no_chunks [OF a1 a2])
  show "finishUploadA cloud app st fs videoId
        = (\<lparr> status = 400, body = Message ''No video chunks found'' \<rparr>, fs, st)"
    by (rule finishUploadA_Inl, rule joinChunks_no_chunks [OF a1 a2])
next
  assume "\<not> existsSync fs (videoDir app videoId)"
  then obtain e where e: "readdirSync fs (videoDir app videoId) = Inl e"
    using not_exists_readdir by blast
  have "finishUploadB app fs videoId = (serverError (FsError e), fs)"
    by (rule finishUploadB_Inl, rule joinChunks_no_dir [OF e])
  moreover have "finishUploadA cloud app st fs videoId = (serverError (FsError e), fs, st)"
    by (rule finishUploadA_Inl, rule joinChunks_no_dir [OF e])
  ultimately show "\<exists>e. finishUploadB app fs videoId = (\<lparr> status = 500, body = ServerError (FsError e) \<rparr>, fs) \<and>
           finishUploadA cloud app st fs videoId
             = (\<lparr> status = 500, body = ServerError (FsError e) \<rparr>, fs, st)"
    unfolding serverError_def by blast
qed

lemma demo_noChunks_readdir: "readdirSync demoNoChunks demoDir = Inr [''notes.txt'']"
  by (simp add: readdirSync_def lookup_def children_def demoNoChunks_def demoDir_def)

lemma demo_v2: "videoDir demoApp ''v2'' = \<lparr> segments = [''srv'', ''app'', ''videos'', ''v2''], dirsep = False \<rparr>"
  by (simp add: videoDir_def demoApp_def path_join_def dirname_def)

lemma demo_v2_missing: "\<not> existsSync demoFs (videoDir demoApp ''v2'')"
  by (simp add: demo_v2 existsSync_def stat_def lookup_def demoFs_def)

text \<open>
  As the specification words it, the property fails where the directory is missing:
  no name ending in \<^verbatim>\<open>.webm\<close> is there, and the answer is 500, not 400.
\<close>

theorem finalize_missing_directory_counterexample:
  "\<not> existsSync demoFs (videoDir demoApp ''v2'') \<and>
   filter (\<lambda>f. endsWith f ''.webm'') (children demoFs (segments (videoDir demoApp ''v2''))) = [] \<and>
   finishUploadB demoApp demoFs ''v2'' = (\<lparr> status = 500, body = ServerError (FsError ENOENT) \<rparr>, demoFs)"
proof -
  have "readdirSync demoFs (videoDir demoApp ''v2'') = Inl ENOENT"
    by (simp add: demo_v2 readdirSync_def lookup_def demoFs_def)
  then have "finishUploadB demoApp demoFs ''v2'' = (serverError (FsError ENOENT), demoFs)"
    by (intro finishUploadB_Inl joinChunks_no_dir)
  moreover have "children demoFs (segments (videoDir demoApp ''v2'')) = []"
    by (simp add: demo_v2 children_def demoFs_def)
  ultimately show ?thesis using demo_v2_missing by (simp add: serverError_def)
qed

theorem finalize_without_chunks_witness:
  "readdirSync demoNoChunks (videoDir demoApp ''v1'') = Inr [''notes.txt''] \<and>
   filter (\<lambda>f. endsWith f ''.webm'') [''notes.txt''] = [] \<and>
   finishUploadB demoApp demoNoChunks ''v1''
     = (\<lparr> status = 400, body = Message ''No video chunks found'' \<rparr>, demoNoChunks) \<and>
   finishUploadA demoCloud demoApp [] demoNoChunks ''v1''
     = (\<lparr> status = 400, body = Message ''No video chunks found'' \<rparr>, demoNoChunks, []) \<and>
   \<not> existsSync demoFs (videoDir demoApp ''v2'') \<and>
   (\<exists>e. finishUploadB demoApp demoFs ''v2'' = (\<lparr> status = 500, body = ServerError (FsError e) \<rparr>, demoFs) \<and>
        finishUploadA demoCloud demoApp [] demoFs ''v2''
          = (\<lparr> status = 500, body = ServerError (FsError e) \<rparr>, demoFs, []))"
proof -
  have h1: "readdirSync demoNoChunks (videoDir demoApp ''v1'') = Inr [''notes.txt'']"
    by (simp add: demo_videoDir demo_noChunks_readdir)
  have h2: "filter (\<lambda>f. endsWith f ''.webm'') [''notes.txt''] = []"
    by (simp add: endsWith_def)
  note t1 = finalize_without_chunks
    [where app = demoApp and fs = demoNoChunks and videoId = "''v1''" and names = "[''notes.txt'']"
       and cloud = demoCloud and st = "[]", THEN conjunct1, rule_format, OF conjI [OF h1 h2]]
  note t2 = finalize_without_chunks
    [where app = demoApp and fs = demoFs and videoId = "''v2''"
       and cloud = demoCloud and st = "[]", THEN conjunct2, rule_format, OF demo_v2_missing]
  from h1 h2 t1 t2 demo_v2_missing show ?thesis by (intro conjI) blast+
qed


section \<open>Removal of a video directory\<close>

lemma children_Nil_lookup:
  assumes "children fs d = []"
  shows "lookup fs (d @ [f]) = None"
proof -
  from assms have "\<forall>q\<in>set (map fst fs). \<not> (q \<noteq> [] \<and> butlast q = d)"
    by (simp add: children_def filter_empty_conv)
  then have "d @ [f] \<notin> fst ` set fs" by force
  then show ?thesis by (simp add: lookup_def map_of_eq_None_iff)
qed

lemma rmdirSync_Inr:
  assumes "rmdirSync fs p = Inr fs'"
  shows "segments p \<noteq> [] \<and> children fs (segments p) = [] \<and> fs' = AList.delete (segments p) fs"
  using assms by (auto simp: rmdirSync_def split: if_splits option.splits node.splits)

lemma clearDir_Inr:
  assumes "clearDir fs dir = Inr fs'"
  shows "lookup fs' (segments dir) = None \<and> (\<forall>f. lookup fs' (segments dir @ [f]) = None)"
proof -
  from assms obtain fs1 where "rmdirSync fs1 dir = Inr fs'"
    by (auto simp: clearDir_def split: sum.splits)
  from rmdirSync_Inr [OF this] show ?thesis
    by (simp add: lookup_delete children_Nil_lookup)
qed

lemma lookup_None_not_exists: "lookup fs (segments p) = None \<Longrightarrow> \<not> existsSync fs p"
  by (simp add: existsSync_def stat_def)

lemma not_exists_children:
  assumes "wellFormed fs" "\<not> existsSync fs p"
  shows "lookup fs (segments p @ [f]) = None"
proof (rule ccontr)
  assume "lookup fs (segments p @ [f]) \<noteq> None"
  then obtain n where "map_of fs (segments p @ [f]) = Some n" by (auto simp: lookup_def)
  then have "(segments p @ [f], n) \<in> set fs" by (rule map_of_SomeD)
  with assms(1) have "lookup fs (segments p) = Some Dir"
    by (auto simp: wellFormed_def list_all_iff)
  with assms(2) show False by (simp add: existsSync_def stat_def)
qed

lemma deleteVideo_missing:
  "\<not> existsSync fs (videoDir app videoId) \<Longrightarrow>
     deleteVideo app fs videoId
       = (\<lparr> status = 200, body = Message ''All video files deleted successfully'' \<rparr>, fs)"
  by (simp add: deleteVideo_def)

lemma deleteVideo_200:
  assumes "deleteVideo app fs videoId = (r, fs1)" "status r = 200"
  shows "r = \<lparr> status = 200, body = Message ''All video files deleted successfully'' \<rparr>
     \<and> \<not> existsSync fs1 (videoDir app videoId)"
proof (cases "existsSync fs (videoDir app videoId)")
  case False
  with assms show ?thesis by (simp add: deleteVideo_def)
next
  case True
  with assms have c: "clearDir fs (videoDir app videoId) = Inr fs1"
    and r: "r = \<lparr> status = 200, body = Message ''All video files deleted successfully'' \<rparr>"
    by (auto simp: deleteVideo_def serverError_def split: sum.splits prod.splits)
  from clearDir_Inr [OF c] r show ?thesis by (simp add: lookup_None_not_exists)
qed

text \<open>
  C7. The removal of video artifacts is idempotent: on a video identifier whose
  directory does not exist it answers 200 and returns the file system unchanged; and
  after any removal that answered 200 the directory does not exist, so that a second
  call answers 200 and changes nothing.
\<close>

theorem delete_video_idempotent:
  "(\<not> existsSync fs (videoDir app videoId) \<longrightarrow>
      deleteVideo app fs videoId
        = (\<lparr> status = 200, body = Message ''All video files deleted successfully'' \<rparr>, fs))
   \<and> (deleteVideo app fs videoId = (r, fs') \<and> status r = 200 \<longrightarrow>
        \<not> existsSync fs' (videoDir app videoId) \<and>
        deleteVideo app fs' videoId = (r, fs'))"
proof (intro conjI impI)
  assume "\<not> existsSync fs (videoDir app videoId)"
  then show "deleteVideo app fs videoId
        = (\<lparr> status = 200, body = Message ''All video files deleted successfully'' \<rparr>, fs)"
    by (rule deleteVideo_missing)
next
  assume a: "deleteVideo app fs videoId = (r, fs') \<and> status r = 200"
  then have d: "deleteVideo app fs videoId = (r, fs')" and s: "status r = 200" by blast+
  from deleteVideo_200 [OF d s] show "\<not> existsSync fs' (videoDir app videoId)" by blast
  from deleteVideo_200 [OF d s] deleteVideo_missing [of fs' app videoId]
  show "deleteVideo app fs' videoId = (r, fs')" by simp
qed

lemma demo_unlinkAll:
  "unlinkAll demoFs demoDir
     [''1700000000000-a.webm'', ''1700000000050-b.webm'', ''1700000000010-c.webm'']
   = Inr [([''srv''], Dir), ([''srv'', ''app''], Dir), ([''srv'', ''app'', ''videos''], Dir),
          ([''srv'', ''app'', ''videos'', ''v1''], Dir)]"
  by (simp add: path_join_name properName_def unlinkSync_def stat_def lookup_def
      demoFs_def demoDir_def)

lemma demo_clearDir: "clearDir demoFs demoDir = Inr demoCleared"
  by (simp add: clearDir_def demo_readdir demo_unlinkAll del: unlinkAll.simps)
    (simp add: rmdirSync_def lookup_def children_def demoDir_def demoCleared_def)

lemma demo_exists: "existsSync demoFs demoDir"
  by (simp add: existsSync_def stat_def lookup_def demoFs_def demoDir_def)

lemma demo_deleteVideo:
  "deleteVideo demoApp demoFs ''v1''
     = (\<lparr> status = 200, body = Message ''All video files deleted successfully'' \<rparr>, demoCleared)"
  by (simp add: deleteVideo_def demo_videoDir demo_exists demo_clearDir)

theorem delete_video_idempotent_witness:
  "deleteVideo demoApp demoFs ''v1''
     = (\<lparr> status = 200, body = Message ''All video files deleted successfully'' \<rparr>, demoCleared)
   \<and> \<not> existsSync demoCleared (videoDir demoApp ''v1'')
   \<and> deleteVideo demoApp demoCleared ''v1''
     = (\<lparr> status = 200, body = Message ''All video files deleted successfully'' \<rparr>, demoCleared)"
proof -
  let ?ok = "\<lparr> status = 200, body = Message ''All video files deleted successfully'' \<rparr>"
  note t = delete_video_idempotent
    [where app = demoApp and fs = demoFs and videoId = "''v1''" and r = ?ok and fs' = demoCleared]
  have a: "\<not> existsSync demoCleared (videoDir demoApp ''v1'') \<and>
      deleteVideo demoApp demoCleared ''v1'' = (?ok, demoCleared)"
    by (rule t [THEN conjunct2, rule_format]) (simp add: demo_deleteVideo)
  note u = delete_video_idempotent
    [where app = demoApp and fs = demoCleared and videoId = "''v1''", THEN conjunct1, rule_format]
  from a u have "deleteVideo demoApp demoCleared ''v1'' = (?ok, demoCleared)" by blast
  with demo_deleteVideo a show ?thesis by blast
qed


section \<open>Deletion of a doctor\<close>

lemma getProp_hydrate_videoId:
  "d ''videoId'' = Some (JString v) \<Longrightarrow> getProp (hydrate d) ''videoId'' = Some (JString v)"
  by (simp add: getProp_def hydrate_def schemaData_def schemaPaths_def)

lemma deleteDoctorB_found:
  assumes "castObjectId ident = Some oid" "findById st oid = Some d"
    and "d ''videoId'' = Some (JString v)"
  shows "deleteDoctorB castObjectId app st fs ident =
     (if existsSync fs (videoDir app v) then
        (case clearDir fs (videoDir app v) of
           Inl (e, fs') \<Rightarrow> (serverError (FsError e), removeById st oid, fs')
         | Inr fs' \<Rightarrow>
             (\<lparr> status = 200,
                body = Message ''Doctor and related video files deleted successfully'' \<rparr>,
              removeById st oid, fs'))
      else
        (\<lparr> status = 200,
           body = Message ''Doctor and related video files deleted successfully'' \<rparr>,
         removeById st oid, fs))"
  using assms by (simp add: deleteDoctorB_def getProp_hydrate_videoId Let_def split: sum.splits prod.splits)


lemma demo_findById: "findById demoStore ''65a000000000000000000001'' = Some demoDoctor"
  by (simp add: findById_def demoStore_def demoDoctor_def)

lemma demo_cast: "demoCastObjectId ''65a000000000000000000001'' = Some ''65a000000000000000000001''"
  by (simp add: demoCastObjectId_def)

lemma demo_videoId: "demoDoctor ''videoId'' = Some (JString ''v1'')"
  by (simp add: demoDoctor_def)

lemma demo_removeById: "removeById demoStore ''65a000000000000000000001'' = []"
  by (simp add: demoStore_def demoDoctor_def)






section \<open>What finalize and doctor deletion leave on disk\<close>

lemma finishUploadB_others:
  assumes "finishUploadB app fs videoId = (r, fs')" "status r = 200"
    and "q \<noteq> segments (path_join (videoDir app videoId) [''final_video.webm''])"
  shows "lookup fs' q = lookup fs q"
proof -
  from joinChunks_Inr [OF finishUploadB_200 [OF assms(1,2)]] obtain w where
    "writeFile fs (path_join (videoDir app videoId) [''final_video.webm'']) w = Inr fs'" by blast
  from writeFile_lookup [OF this] assms(3) show ?thesis by simp
qed

lemma finishUploadA_others:
  assumes "finishUploadA cloud app st fs videoId = (r, fs', st')" "status r = 200"
    and "q \<noteq> segments (path_join (videoDir app videoId) [videoId @ ''.webm''])"
  shows "lookup fs' q = lookup fs q"
proof -
  let ?out = "path_join (videoDir app videoId) [videoId @ ''.webm'']"
  from finishUploadA_200 [OF assms(1,2)] obtain fs1 where
    j: "joinChunks fs (videoDir app videoId) ?out = Inr fs1"
    and u: "unlinkSync fs1 ?out = Inr fs'" by blast
  from joinChunks_Inr [OF j] obtain w where w: "writeFile fs ?out w = Inr fs1" by blast
  from unlinkSync_Inr [OF u] have "lookup fs' q = lookup fs1 q"
    using assms(3) by (simp add: lookup_delete)
  also from writeFile_lookup [OF w] assms(3) have "\<dots> = lookup fs q" by simp
  finally show ?thesis .
qed

lemma deleteDoctorB_200_gone:
  assumes "castObjectId ident = Some oid" "findById st oid = Some d"
    and "d ''videoId'' = Some (JString v)" and "wellFormed fs"
    and "deleteDoctorB castObjectId app st fs ident = (r, st', fs')" "status r = 200"
  shows "\<not> existsSync fs' (videoDir app v) \<and>
     (\<forall>f. lookup fs' (segments (videoDir app v) @ [f]) = None)"
proof (cases "existsSync fs (videoDir app v)")
  case False
  with assms(5) have "fs' = fs"
    unfolding deleteDoctorB_found [of castObjectId ident oid st d v, OF assms(1-3)] by simp
  with False not_exists_children [OF assms(4) False] show ?thesis by simp
next
  case True
  with assms(5,6) have "clearDir fs (videoDir app v) = Inr fs'"
    unfolding deleteDoctorB_found [of castObjectId ident oid st d v, OF assms(1-3)]
    by (auto simp: serverError_def split: sum.splits prod.splits)
  from clearDir_Inr [OF this] show ?thesis by (simp add: lookup_None_not_exists)
qed

text \<open>
  C8 (amended). No finalize deletes a chunk file: after a successful finalize of
  either variant every path other than the output path holds what it held before.
  The chunk files are deleted by the deletion of the owning doctor in the variant that
  keeps the videos on disk: once it has answered 200, the directory of the video does
  not exist and no entry is left in it.
\<close>

theorem chunks_removed_by_doctor_deletion_only:
  "(finishUploadB app fs videoId = (r, fs') \<and> status r = 200 \<and>
      q \<noteq> segments (path_join (videoDir app videoId) [''final_video.webm'']) \<longrightarrow>
      lookup fs' q = lookup fs q)
   \<and> (finishUploadA cloud app st fs videoId = (ra, fsa, sta) \<and> status ra = 200 \<and>
      q \<noteq> segments (path_join (videoDir app videoId) [videoId @ ''.webm'']) \<longrightarrow>
      lookup fsa q = lookup fs q)
   \<and> (castObjectId ident = Some oid \<and> findById st oid = Some d \<and>
      d ''videoId'' = Some (JString v) \<and> wellFormed fs \<and>
      deleteDoctorB castObjectId app st fs ident = (rd, std, fsd) \<and> status rd = 200 \<longrightarrow>
      \<not> existsSync fsd (videoDir app v) \<and>
      (\<forall>f. lookup fsd (segments (videoDir app v) @ [f]) = None))"
  using finishUploadB_others [of app fs videoId r fs' q]
    finishUploadA_others [of cloud app st fs videoId ra fsa sta q]
    deleteDoctorB_200_gone [of castObjectId ident oid st d v fs app rd std fsd]
  by blast

lemma demo_wellFormed: "wellFormed demoFs"
  by (simp add: wellFormed_def lookup_def demoFs_def)

lemma demo_deleteDoctorB:
  "deleteDoctorB demoCastObjectId demoApp demoStore demoFs ''65a000000000000000000001''
     = (\<lparr> status = 200,
          body = Message ''Doctor and related video files deleted successfully'' \<rparr>,
        [], demoCleared)"
  unfolding deleteDoctorB_found [of demoCastObjectId "''65a000000000000000000001''"
      "''65a000000000000000000001''" demoStore demoDoctor "''v1''",
      OF demo_cast demo_findById demo_videoId]
  by (simp add: demo_videoDir demo_exists demo_clearDir demo_removeById)

text \<open>
  As the specification words it, the property fails for finalize: after the
  successful finalize of the recording session the first chunk is still on disk.
\<close>

theorem chunks_survive_finalize_counterexample:
  "finishUploadB demoApp demoFs ''v1'' =
     (\<lparr> status = 200,
        body = MessagePath ''Video file created successfully''
                 ''/srv/app/videos/v1/final_video.webm'' \<rparr>, demoFinal)
   \<and> readFileSync demoFinal (path_join (videoDir demoApp ''v1'') [''1700000000000-a.webm''])
       = Inr [1, 2]"
proof -
  have "readFileSync demoFinal (path_join demoDir [''1700000000000-a.webm'']) = Inr [1, 2]"
    by (simp add: path_join_name properName_def readFileSync_def stat_def lookup_def
        demoFs_def demoDir_def demoFinal_def)
  with demo_finish show ?thesis by (simp add: demo_videoDir)
qed

theorem chunks_removed_by_doctor_deletion_only_witness:
  "finishUploadB demoApp demoFs ''v1'' =
     (\<lparr> status = 200,
        body = MessagePath ''Video file created successfully''
                 ''/srv/app/videos/v1/final_video.webm'' \<rparr>, demoFinal)
   \<and> lookup demoFinal [''srv'', ''app'', ''videos'', ''v1'', ''1700000000000-a.webm'']
       = lookup demoFs [''srv'', ''app'', ''videos'', ''v1'', ''1700000000000-a.webm'']
   \<and> finishUploadA demoCloud demoApp demoStore demoFs ''v1'' =
     (\<lparr> status = 200,
        body = MessagePath ''Video file created successfully''
                 ''https://cdn.example/v1/final_video.webm'' \<rparr>, demoFs, demoStore)
   \<and> wellFormed demoFs
   \<and> deleteDoctorB demoCastObjectId demoApp demoStore demoFs ''65a000000000000000000001''
     = (\<lparr> status = 200,
          body = Message ''Doctor and related video files deleted successfully'' \<rparr>,
        [], demoCleared)
   \<and> \<not> existsSync demoCleared (videoDir demoApp ''v1'')
   \<and> lookup demoCleared (segments (videoDir demoApp ''v1'') @ [''1700000000000-a.webm'']) = None"
proof -
  let ?q = "[''srv'', ''app'', ''videos'', ''v1'', ''1700000000000-a.webm'']"
  note t = chunks_removed_by_doctor_deletion_only
    [where app = demoApp and fs = demoFs and videoId = "''v1''" and q = ?q
       and r = "\<lparr> status = 200,
        body = MessagePath ''Video file created successfully''
                 ''/srv/app/videos/v1/final_video.webm'' \<rparr>"
       and fs' = demoFinal
       and cloud = demoCloud and st = demoStore
       and ra = "\<lparr> status = 200,
        body = MessagePath ''Video file created successfully''
                 ''https://cdn.example/v1/final_video.webm'' \<rparr>"
       and fsa = demoFs and sta = demoStore
       and castObjectId = demoCastObjectId and ident = "''65a000000000000000000001''"
       and oid = "''65a000000000000000000001''" and d = demoDoctor and v = "''v1''"
       and rd = "\<lparr> status = 200,
          body = Message ''Doctor and related video files deleted successfully'' \<rparr>"
       and std = "[]" and fsd = demoCleared]
  have q1: "?q \<noteq> segments (path_join (videoDir demoApp ''v1'') [''final_video.webm''])"
    by (simp add: demo_videoDir path_join_name properName_def demoDir_def)
  have q2: "?q \<noteq> segments (path_join (videoDir demoApp ''v1'') [''v1'' @ ''.webm''])"
    by (simp add: demo_videoDir path_join_name properName_def demoDir_def)
  have a: "lookup demoFinal ?q = lookup demoFs ?q"
    by (rule t [THEN conjunct1, rule_format]) (simp add: demo_finish q1)
  have b: "lookup demoFs ?q = lookup demoFs ?q"
    by (rule t [THEN conjunct2, THEN conjunct1, rule_format,
          OF conjI [OF demo_finishA conjI [OF _ q2]]]) simp
  have c: "\<not> existsSync demoCleared (videoDir demoApp ''v1'') \<and>
      (\<forall>f. lookup demoCleared (segments (videoDir demoApp ''v1'') @ [f]) = None)"
    by (rule t [THEN conjunct2, THEN conjunct2, rule_format])
      (simp add: demo_cast demo_findById demo_videoId demo_wellFormed demo_deleteDoctorB)
  from demo_finish a demo_finishA demo_wellFormed demo_deleteDoctorB c show ?thesis by blast
qed


section \<open>The playable URL of the remote variant\<close>

text \<open>
  C3. In the variant with remote hosting, the successful finalize of the recording
  session returns the provider's URL and removes the local file, but the stored
  document of the doctor is what it was and carries no \<^verbatim>\<open>videoUrl\<close>: the schema has
  no such path, so the assignment sets a plain property that \<^verbatim>\<open>save\<close> does not
  write.
\<close>

theorem finalize_does_not_persist_url:
  "finishUploadA demoCloud demoApp demoStore demoFs ''v1'' =
     (\<lparr> status = 200,
        body = MessagePath ''Video file created successfully''
                 ''https://cdn.example/v1/final_video.webm'' \<rparr>, demoFs, demoStore)
   \<and> findOneByVideoId demoStore ''v1'' = Some demoDoctor
   \<and> demoDoctor ''videoUrl'' = None
   \<and> lookup demoFs (segments (path_join (videoDir demoApp ''v1'') [''v1'' @ ''.webm''])) = None"
proof -
  have "demoDoctor ''videoUrl'' = None" by (simp add: demoDoctor_def)
  moreover have "lookup demoFs (segments (path_join (videoDir demoApp ''v1'') [''v1'' @ ''.webm''])) = None"
    unfolding demo_videoDir demo_outA by (simp add: lookup_def demoFs_def)
  ultimately show ?thesis using demo_finishA demo_findOne by blast
qed


section \<open>Creating and updating doctors\<close>

lemma validate_ok:
  assumes "reqBody ''name'' = Some (JString n)" "n \<noteq> []"
    and "reqBody ''email'' = Some (JString e)" "e \<noteq> []" "isEmail e"
  shows "validate isEmail reqBody = None"
  using assms by (simp add: validate_def validateString_def)

lemma validate_None_iff:
  "validate isEmail reqBody = None \<longleftrightarrow>
     (\<exists>n e. reqBody ''name'' = Some (JString n) \<and> n \<noteq> [] \<and>
            reqBody ''email'' = Some (JString e) \<and> e \<noteq> [] \<and> isEmail e)"
  by (auto simp: validate_def validateString_def
      split: sum.splits option.splits jsvalue.splits if_splits)








lemma demo_payload_facts:
  "demoPayload ''name'' = Some (JString ''Bob'')"
  "demoPayload ''email'' = Some (JString ''b@x.com'')"
  "demoPayload ''nickname'' = Some (JString ''Bobby'')"
  "demoPayload ''_id'' = None"
  "demoIsEmail ''b@x.com''"
  by (simp_all add: demoPayload_def demoIsEmail_def)

lemma demo_validate: "validate demoIsEmail demoPayload = None"
  by (rule validate_ok [of demoPayload "''Bob''" "''b@x.com''" demoIsEmail])
    (simp_all add: demo_payload_facts)








lemma updateDoctor_not_found:
  assumes "validate isEmail reqBody = None" "castObjectId ident = Some oid"
    and "findById st oid = None"
  shows "updateDoctor isEmail castObjectId st ident reqBody = (Inl CastError, st) \<or>
     updateDoctor isEmail castObjectId st ident reqBody
       = (Inr \<lparr> status = 200, body = DocJson None \<rparr>, st)"
  using assms by (auto simp: updateDoctor_def split: option.splits prod.splits)

lemma updateDoctor_never_404:
  "fst (updateDoctor isEmail castObjectId st ident reqBody) = Inr r \<Longrightarrow> status r \<noteq> 404"
  by (auto simp: updateDoctor_def Let_def split: option.splits prod.splits if_splits)

text \<open>
  C4. An update with a valid payload under an identifier that no stored doctor has is
  answered 200 with the body \<^verbatim>\<open>null\<close>, not 404; the collection is what it was.
\<close>

theorem update_unknown_doctor_answers_200:
  "validate demoIsEmail demoPayload = None \<and>
   findById demoStore ''65a0000000000000000000ff'' = None \<and>
   updateDoctor demoIsEmail demoCastObjectId demoStore ''65a0000000000000000000ff'' demoPayload
     = (Inr \<lparr> status = 200, body = DocJson None \<rparr>, demoStore)"
proof -
  have f: "findById demoStore ''65a0000000000000000000ff'' = None"
    by (simp add: findById_def demoStore_def demoDoctor_def)
  have c: "demoCastObjectId ''65a0000000000000000000ff'' = Some ''65a0000000000000000000ff''"
    by (simp add: demoCastObjectId_def)
  have p: "castPaths demoPayload"
    by (simp add: castPaths_def schemaPaths_def demoPayload_def)
  have "castDoc demoCastObjectId demoPayload = Some (None, schemaData demoPayload)"
    using p by (simp add: castDoc_def demo_payload_facts)
  with demo_validate f c have "updateDoctor demoIsEmail demoCastObjectId demoStore
      ''65a0000000000000000000ff'' demoPayload
     = (Inr \<lparr> status = 200, body = DocJson None \<rparr>, demoStore)"
    by (simp add: updateDoctor_def)
  with demo_validate f show ?thesis by blast
qed


section \<open>Finalizing twice\<close>

lemma properName_final: "properName ''final_video.webm''"
  by (simp add: properName_def)

lemma out_segments:
  "segments (path_join d [''final_video.webm'']) = segments d @ [''final_video.webm'']"
  by (simp add: path_join_name properName_final)


lemma readdirSync_Inr:
  "readdirSync fs p = Inr names \<longleftrightarrow>
     lookup fs (segments p) = Some Dir \<and> names = children fs (segments p)"
  by (auto simp: readdirSync_def split: option.splits node.splits)

lemma readFileSync_Inr:
  "readFileSync fs p = Inr c \<longleftrightarrow> lookup fs (segments p) = Some (File c) \<and> \<not> dirsep p"
  by (auto simp: readFileSync_def stat_def split: option.splits node.splits sum.splits)










section \<open>Video identifiers that leave the videos directory\<close>

lemma splitOn_sep: "c \<notin> set s \<Longrightarrow> splitOn c (s @ c # rest) = s # splitOn c rest"
  by (induction s) auto

lemma splitOn_joinPath:
  "list_all properName t \<Longrightarrow> t \<noteq> [] \<Longrightarrow> splitOn CHR ''/'' (joinPath t) = t"
proof (induction t rule: joinPath.induct)
  case 1
  then show ?case by simp
next
  case (2 s)
  then show ?case by (simp add: properName_def splitOn_no_sep)
next
  case (3 s t ss)
  from "3.prems" have "CHR ''/'' \<notin> set s" by (simp add: properName_def)
  then have "splitOn CHR ''/'' (s @ CHR ''/'' # joinPath (t # ss)) = s # splitOn CHR ''/'' (joinPath (t # ss))"
    by (rule splitOn_sep)
  with 3 show ?case by simp
qed

lemma splitOn_climb:
  "splitOn CHR ''/'' (concat (replicate k ''../'') @ rest) = replicate k ''..'' @ splitOn CHR ''/'' rest"
proof (induction k)
  case 0
  then show ?case by simp
next
  case (Suc k)
  have "splitOn CHR ''/'' (''..'' @ CHR ''/'' # (concat (replicate k ''../'') @ rest))
      = ''..'' # splitOn CHR ''/'' (concat (replicate k ''../'') @ rest)"
    by (rule splitOn_sep) simp
  with Suc show ?case by simp
qed

lemma normalizeSegs_climb:
  "length acc \<le> k \<Longrightarrow> normalizeSegs acc (replicate k ''..'' @ xs) = normalizeSegs [] xs"
proof (induction k arbitrary: acc)
  case 0
  then show ?case by simp
next
  case (Suc k)
  from Suc.prems have "length (butlast acc) \<le> k" by simp
  from Suc.IH [OF this] show ?case by simp
qed

lemma normalizeSegs_proper:
  "list_all properName xs \<Longrightarrow> normalizeSegs acc xs = acc @ xs"
  by (induction xs arbitrary: acc) (auto simp: properName_def)

lemma escapeId_not_empty: "escapeId app target \<noteq> []"
  by (simp add: escapeId_def)

lemma videoDir_escape:
  assumes "list_all properName target"
  shows "segments (videoDir app (escapeId app target)) = target"
proof -
  have s: "splitOn CHR ''/'' (escapeId app target)
      = replicate (Suc (length app)) ''..'' @ splitOn CHR ''/'' (joinPath target)"
    unfolding escapeId_def by (rule splitOn_climb)
  have n: "normalizeSegs [] (splitOn CHR ''/'' (joinPath target)) = target"
  proof (cases "target = []")
    case True
    then show ?thesis by simp
  next
    case False
    with assms show ?thesis by (simp add: splitOn_joinPath normalizeSegs_proper)
  qed
  have "segments (videoDir app (escapeId app target))
      = normalizeSegs app (''videos'' # splitOn CHR ''/'' (escapeId app target))"
    using escapeId_not_empty [of app target]
    by (simp add: videoDir_def path_join_def dirname_def splitOn_no_sep)
  also have "\<dots> = normalizeSegs (app @ [''videos''])
      (replicate (Suc (length app)) ''..'' @ splitOn CHR ''/'' (joinPath target))"
    unfolding s by simp
  also have "\<dots> = normalizeSegs [] (splitOn CHR ''/'' (joinPath target))"
    by (rule normalizeSegs_climb) simp
  finally show ?thesis using n by simp
qed

lemma digit_in: "d < 10 \<Longrightarrow> digit d \<in> set ''0123456789''"
  unfolding digit_def by (rule nth_mem) simp

lemma set_decimal: "set (decimal n) \<subseteq> set ''0123456789''"
proof (induction n rule: decimal.induct)
  case (1 n)
  show ?case
  proof (cases "n < 10")
    case True
    then show ?thesis using digit_in [of n] by (subst decimal.simps) simp
  next
    case False
    have "n mod 10 < 10" by simp
    from digit_in [OF this] "1.IH" [OF False] False show ?thesis
      by (subst decimal.simps) simp
  qed
qed

lemma properName_chunkName:
  assumes "CHR ''/'' \<notin> set originalname"
  shows "properName (chunkName now originalname)"
proof -
  have "CHR ''/'' \<notin> set (decimal now)" "CHR ''.'' \<notin> set (decimal now)"
    using set_decimal [of now] by auto
  moreover have "decimal now \<noteq> []" using length_decimal_pos [of now] by auto
  ultimately show ?thesis using assms
    by (cases "decimal now") (auto simp: properName_def chunkName_def)
qed

lemma exists_dir: "lookup fs (segments p) = Some Dir \<Longrightarrow> existsSync fs p"
  by (simp add: existsSync_def stat_def)

lemma upload_writes:
  assumes "segments (videoDir app videoId) = target" "lookup fs target = Some Dir"
    and "CHR ''/'' \<notin> set originalname"
    and "lookup fs (target @ [chunkName now originalname]) \<noteq> Some Dir"
  shows "\<exists>fs'. upload app fs videoId now (Some (originalname, content))
           = (\<lparr> status = 200, body = Message ''Video chunk uploaded successfully'' \<rparr>, fs') \<and>
         lookup fs' (target @ [chunkName now originalname]) = Some (File content)"
proof -
  let ?p = "path_join (videoDir app videoId) [chunkName now originalname]"
  have p: "?p = \<lparr> segments = target @ [chunkName now originalname], dirsep = False \<rparr>"
    using assms(1) by (simp add: path_join_name properName_chunkName [OF assms(3)])
  have e: "existsSync fs (videoDir app videoId)"
    using assms(1,2) by (simp add: exists_dir)
  have w: "writeFile fs ?p content
      = Inr (AList.update (target @ [chunkName now originalname]) (File content) fs)"
    unfolding p using assms(2,4) by (auto simp: writeFile_def split: option.splits node.splits)
  from writeFile_lookup [OF w] have
    "lookup (AList.update (target @ [chunkName now originalname]) (File content) fs)
       (target @ [chunkName now originalname]) = Some (File content)"
    by (simp add: p)
  with e w show ?thesis by (simp add: upload_def)
qed

lemma deleteVideo_deletes:
  assumes "segments (videoDir app videoId) = target" "lookup fs target = Some Dir"
    and "deleteVideo app fs videoId = (r, fs')" "status r = 200"
  shows "lookup fs' target = None \<and> (\<forall>f. lookup fs' (target @ [f]) = None)"
proof -
  have e: "existsSync fs (videoDir app videoId)"
    using assms(1,2) by (simp add: exists_dir)
  with assms(3,4) have "clearDir fs (videoDir app videoId) = Inr fs'"
    by (auto simp: deleteVideo_def serverError_def split: sum.splits prod.splits)
  from clearDir_Inr [OF this] assms(1) show ?thesis by simp
qed

lemma finalize_at:
  assumes "segments (videoDir app videoId) = target"
    and "finishUploadB app fs videoId = (r, fs')" "status r = 200"
  shows "\<exists>contents.
     map (\<lambda>f. readFileSync fs (path_join (videoDir app videoId) [f]))
         (sort (filter (\<lambda>f. endsWith f ''.webm'') (children fs target))) = map Inr contents \<and>
     contents \<noteq> [] \<and>
     lookup fs' (target @ [''final_video.webm'']) = Some (File (concat contents))"
proof -
  from finalize_content [OF assms(2,3)] obtain names contents where
    n: "readdirSync fs (videoDir app videoId) = Inr names"
    and m: "map (\<lambda>f. readFileSync fs (path_join (videoDir app videoId) [f]))
             (sort (filter (\<lambda>f. endsWith f ''.webm'') names)) = map Inr contents"
    and c: "contents \<noteq> []"
    and r: "readFileSync fs' (path_join (videoDir app videoId) [''final_video.webm''])
           = Inr (concat contents)" by blast
  from n assms(1) have "names = children fs target" by (simp add: readdirSync_Inr)
  moreover from r assms(1) have "lookup fs' (target @ [''final_video.webm'']) = Some (File (concat contents))"
    by (simp add: readFileSync_Inr out_segments)
  ultimately show ?thesis using m c by blast
qed

text \<open>
  C10. The video identifier of the request reaches \<^verbatim>\<open>path.join\<close> as it is, and the
  normalisation follows its \<^verbatim>\<open>..\<close> and separator segments: for every absolute path
  there is an identifier under which the handlers work on that path. There, an upload
  writes the chunk into the directory, the removal of artifacts deletes the directory
  and all its entries, and finalize reads the files of the directory and writes its
  output into it, wherever the directory lies.
\<close>

theorem videoId_escapes_videos_directory:
  "list_all properName target \<longrightarrow>
     segments (videoDir app (escapeId app target)) = target \<and>
     (lookup fs target = Some Dir \<and> CHR ''/'' \<notin> set originalname \<and>
      lookup fs (target @ [chunkName now originalname]) \<noteq> Some Dir \<longrightarrow>
        (\<exists>fs'. upload app fs (escapeId app target) now (Some (originalname, content))
                  = (\<lparr> status = 200, body = Message ''Video chunk uploaded successfully'' \<rparr>, fs') \<and>
               lookup fs' (target @ [chunkName now originalname]) = Some (File content))) \<and>
     (lookup fs target = Some Dir \<and>
      deleteVideo app fs (escapeId app target) = (rd, fsd) \<and> status rd = 200 \<longrightarrow>
        lookup fsd target = None \<and> (\<forall>f. lookup fsd (target @ [f]) = None)) \<and>
     (finishUploadB app fs (escapeId app target) = (rf, fsf) \<and> status rf = 200 \<longrightarrow>
        (\<exists>contents.
           map (\<lambda>f. readFileSync fs (path_join (videoDir app (escapeId app target)) [f]))
               (sort (filter (\<lambda>f. endsWith f ''.webm'') (children fs target))) = map Inr contents \<and>
           contents \<noteq> [] \<and>
           lookup fsf (target @ [''final_video.webm'']) = Some (File (concat contents))))"
proof (intro impI)
  assume "list_all properName target"
  then have s: "segments (videoDir app (escapeId app target)) = target"
    by (rule videoDir_escape)
  show "segments (videoDir app (escapeId app target)) = target \<and>
     (lookup fs target = Some Dir \<and> CHR ''/'' \<notin> set originalname \<and>
      lookup fs (target @ [chunkName now originalname]) \<noteq> Some Dir \<longrightarrow>
        (\<exists>fs'. upload app fs (escapeId app target) now (Some (originalname, content))
                  = (\<lparr> status = 200, body = Message ''Video chunk uploaded successfully'' \<rparr>, fs') \<and>
               lookup fs' (target @ [chunkName now originalname]) = Some (File content))) \<and>
     (lookup fs target = Some Dir \<and>
      deleteVideo app fs (escapeId app target) = (rd, fsd) \<and> status rd = 200 \<longrightarrow>
        lookup fsd target = None \<and> (\<forall>f. lookup fsd (target @ [f]) = None)) \<and>
     (finishUploadB app fs (escapeId app target) = (rf, fsf) \<and> status rf = 200 \<longrightarrow>
        (\<exists>contents.
           map (\<lambda>f. readFileSync fs (path_join (videoDir app (escapeId app target)) [f]))
               (sort (filter (\<lambda>f. endsWith f ''.webm'') (children fs target))) = map Inr contents \<and>
           contents \<noteq> [] \<and>
           lookup fsf (target @ [''final_video.webm'']) = Some (File (concat contents))))"
    using s upload_writes [OF s, of fs originalname now content]
      deleteVideo_deletes [OF s, of fs rd fsd]
      finalize_at [OF s, of fs rf fsf]
    by blast
qed

lemma demo_escape: "escapeId demoApp [''srv'', ''data''] = ''../../../srv/data''"
  by (simp add: escapeId_def demoApp_def)

lemma demo_escape_dir: "videoDir demoApp ''../../../srv/data'' = demoData"
  by (simp add: videoDir_def path_join_def dirname_def demoApp_def demoData_def)

lemma demo_outside_readdir: "readdirSync demoOutside demoData = Inr [''backup.webm'']"
  by (simp add: readdirSync_def lookup_def children_def demoOutside_def demoData_def)

lemma demo_outside_deleteVideo:
  "deleteVideo demoApp demoOutside ''../../../srv/data''
     = (\<lparr> status = 200, body = Message ''All video files deleted successfully'' \<rparr>, demoCleared)"
proof -
  have e: "existsSync demoOutside demoData"
    by (simp add: existsSync_def stat_def lookup_def demoOutside_def demoData_def)
  have u: "unlinkAll demoOutside demoData [''backup.webm'']
      = Inr [([''srv''], Dir), ([''srv'', ''app''], Dir), ([''srv'', ''app'', ''videos''], Dir),
             ([''srv'', ''data''], Dir)]"
    by (simp add: path_join_name properName_def unlinkSync_def stat_def lookup_def
        demoOutside_def demoData_def)
  have "clearDir demoOutside demoData = Inr demoCleared"
    by (simp add: clearDir_def demo_outside_readdir u del: unlinkAll.simps)
      (simp add: rmdirSync_def lookup_def children_def demoData_def demoCleared_def)
  with e show ?thesis by (simp add: deleteVideo_def demo_escape_dir)
qed

lemma demo_outside_finish:
  "finishUploadB demoApp demoOutside ''../../../srv/data'' =
     (\<lparr> status = 200,
        body = MessagePath ''Video file created successfully'' ''/srv/data/final_video.webm'' \<rparr>,
      demoOutside @ [([''srv'', ''data'', ''final_video.webm''], File [9])])"
proof -
  let ?out = "path_join demoData [''final_video.webm'']"
  have o: "?out = \<lparr> segments = [''srv'', ''data'', ''final_video.webm''], dirsep = False \<rparr>"
    by (simp add: path_join_name properName_def demoData_def)
  have c: "chunkFiles [''backup.webm''] = [''backup.webm'']"
    by (simp add: chunkFiles_def endsWith_def)
  have r: "readChunks demoOutside demoData [''backup.webm''] [] = Inr [9]"
    by (simp add: path_join_name properName_def readFileSync_def stat_def lookup_def
        demoOutside_def demoData_def)
  have w: "writeFile demoOutside ?out [9]
      = Inr (demoOutside @ [([''srv'', ''data'', ''final_video.webm''], File [9])])"
    unfolding o by (simp add: writeFile_def lookup_def demoOutside_def)
  have j: "joinChunks demoOutside demoData ?out
      = Inr (demoOutside @ [([''srv'', ''data'', ''final_video.webm''], File [9])])"
    by (simp add: joinChunks_def demo_outside_readdir c r w del: readChunks.simps append.simps)
  have "pathString ?out = ''/srv/data/final_video.webm''"
    unfolding o by simp
  with j show ?thesis
    by (simp add: finishUploadB_def demo_escape_dir del: pathString.simps append.simps)
qed

theorem videoId_escapes_videos_directory_witness:
  "escapeId demoApp [''srv'', ''data''] = ''../../../srv/data''
   \<and> segments (videoDir demoApp ''../../../srv/data'') = [''srv'', ''data'']
   \<and> (\<exists>fs'. upload demoApp demoOutside ''../../../srv/data'' 1700000000000 (Some (''x.webm'', [8]))
                = (\<lparr> status = 200, body = Message ''Video chunk uploaded successfully'' \<rparr>, fs') \<and>
             lookup fs' [''srv'', ''data'', ''1700000000000-x.webm''] = Some (File [8]))
   \<and> deleteVideo demoApp demoOutside ''../../../srv/data''
       = (\<lparr> status = 200, body = Message ''All video files deleted successfully'' \<rparr>, demoCleared)
   \<and> lookup demoOutside [''srv'', ''data'', ''backup.webm''] = Some (File [9])
   \<and> lookup demoCleared [''srv'', ''data''] = None
   \<and> lookup demoCleared [''srv'', ''data'', ''backup.webm''] = None
   \<and> finishUploadB demoApp demoOutside ''../../../srv/data'' =
       (\<lparr> status = 200,
          body = MessagePath ''Video file created successfully'' ''/srv/data/final_video.webm'' \<rparr>,
        demoOutside @ [([''srv'', ''data'', ''final_video.webm''], File [9])])
   \<and> (\<exists>contents.
         map (\<lambda>f. readFileSync demoOutside (path_join (videoDir demoApp ''../../../srv/data'') [f]))
             (sort (filter (\<lambda>f. endsWith f ''.webm'') (children demoOutside [''srv'', ''data''])))
           = map Inr contents \<and>
         contents \<noteq> [] \<and>
         lookup (demoOutside @ [([''srv'', ''data'', ''final_video.webm''], File [9])])
           [''srv'', ''data'', ''final_video.webm''] = Some (File (concat contents)))"
proof -
  have p: "list_all properName [''srv'', ''data'']" by (simp add: properName_def)
  note t = videoId_escapes_videos_directory
    [where target = "[''srv'', ''data'']" and app = demoApp and fs = demoOutside
       and originalname = "''x.webm''" and now = 1700000000000 and content = "[8]"
       and rd = "\<lparr> status = 200, body = Message ''All video files deleted successfully'' \<rparr>"
       and fsd = demoCleared
       and rf = "\<lparr> status = 200,
          body = MessagePath ''Video file created successfully'' ''/srv/data/final_video.webm'' \<rparr>"
       and fsf = "demoOutside @ [([''srv'', ''data'', ''final_video.webm''], File [9])]",
     rule_format, OF p, unfolded demo_escape]
  have d: "lookup demoOutside [''srv'', ''data''] = Some Dir"
    by (simp add: lookup_def demoOutside_def)
  have n: "chunkName 1700000000000 ''x.webm'' = ''1700000000000-x.webm''"
    by (simp add: chunkName_def decimal.simps digit_def)
  have f: "lookup demoOutside ([''srv'', ''data''] @ [chunkName 1700000000000 ''x.webm'']) \<noteq> Some Dir"
    unfolding n by (simp add: lookup_def demoOutside_def)
  have s: "CHR ''/'' \<notin> set ''x.webm''" by simp
  have b: "lookup demoOutside [''srv'', ''data'', ''backup.webm''] = Some (File [9])"
    by (simp add: lookup_def demoOutside_def)
  from t have a1: "segments (videoDir demoApp ''../../../srv/data'') = [''srv'', ''data'']"
    by blast
  from t [THEN conjunct2, THEN conjunct1, rule_format, OF conjI [OF d conjI [OF s f]]]
  have a2: "\<exists>fs'. upload demoApp demoOutside ''../../../srv/data'' 1700000000000 (Some (''x.webm'', [8]))
                = (\<lparr> status = 200, body = Message ''Video chunk uploaded successfully'' \<rparr>, fs') \<and>
             lookup fs' [''srv'', ''data'', ''1700000000000-x.webm''] = Some (File [8])"
    unfolding n by simp
  have a3: "lookup demoCleared [''srv'', ''data''] = None \<and>
      (\<forall>f. lookup demoCleared ([''srv'', ''data''] @ [f]) = None)"
    by (rule t [THEN conjunct2, THEN conjunct2, THEN conjunct1, rule_format])
      (simp add: d demo_outside_deleteVideo)
  then have a3': "lookup demoCleared [''srv'', ''data'', ''backup.webm''] = None"
    by (metis append_Cons append_Nil)
  have a4: "\<exists>contents.
         map (\<lambda>f. readFileSync demoOutside (path_join (videoDir demoApp ''../../../srv/data'') [f]))
             (sort (filter (\<lambda>f. endsWith f ''.webm'') (children demoOutside [''srv'', ''data''])))
           = map Inr contents \<and>
         contents \<noteq> [] \<and>
         lookup (demoOutside @ [([''srv'', ''data'', ''final_video.webm''], File [9])])
           ([''srv'', ''data''] @ [''final_video.webm'']) = Some (File (concat contents))"
    by (rule t [THEN conjunct2, THEN conjunct2, THEN conjunct2, rule_format])
      (simp add: demo_outside_finish del: append.simps)
  then have a4': "\<exists>contents.
         map (\<lambda>f. readFileSync demoOutside (path_join (videoDir demoApp ''../../../srv/data'') [f]))
             (sort (filter (\<lambda>f. endsWith f ''.webm'') (children demoOutside [''srv'', ''data''])))
           = map Inr contents \<and>
         contents \<noteq> [] \<and>
         lookup (demoOutside @ [([''srv'', ''data'', ''final_video.webm''], File [9])])
           [''srv'', ''data'', ''final_video.webm''] = Some (File (concat contents))"
    by simp
  from demo_escape a1 a2 demo_outside_deleteVideo b a3 a3' demo_outside_finish a4'
  show ?thesis by blast
qed

end
